theory Spec2Isabelle
  imports Complex_Main
begin

section \<open>Severity classification (src/lib/matchValidationUtils.ts)\<close>

text \<open>
  JavaScript numbers are modelled as \<^typ>\<open>real\<close>: counts, thresholds and percentages
  are ordinary finite numbers here (no NaN, no infinities, no rounding error).
  The text of the module \<^verbatim>\<open>matchValidationTypes\<close> that declares the types is not
  available; the records below list the fields the functions read.
\<close>

datatype DiscrepancySeverity = SevNone | SevMinor | SevWarning | SevCritical

datatype DataCategory =
  AutoCoral | TeleopCoral | Algae | Endgame | Mobility | Fouls | TotalScore

record Thresholds =
  critical :: real
  warning :: real
  minor :: real
  criticalAbsolute :: real
  warningAbsolute :: real
  minorAbsolute :: real

record ValidationConfig =
  thresholds :: Thresholds
  categoryThresholds :: "(DataCategory \<rightharpoonup> Thresholds) option"
  checkAutoScoring :: bool
  checkTeleopScoring :: bool
  checkEndgame :: bool
  autoFlagThreshold :: real
  requireReScoutThreshold :: real

text \<open>
  \<^verbatim>\<open>(category && config.categoryThresholds?.[category]) || config.thresholds\<close>:
  the category-specific set when the category is given, the table exists and has an
  entry for it; the default set otherwise.
\<close>

definition selectThresholds :: "ValidationConfig \<Rightarrow> DataCategory option \<Rightarrow> Thresholds" where
  "selectThresholds config category =
     (case category of
        None \<Rightarrow> thresholds config
      | Some c \<Rightarrow>
          (case categoryThresholds config of
             None \<Rightarrow> thresholds config
           | Some tbl \<Rightarrow> (case tbl c of None \<Rightarrow> thresholds config | Some t \<Rightarrow> t)))"

text \<open>The ordinal order of severities: none < minor < warning < critical.\<close>

fun severityOrdinal :: "DiscrepancySeverity \<Rightarrow> nat" where
  "severityOrdinal SevNone = 0"
| "severityOrdinal SevMinor = 1"
| "severityOrdinal SevWarning = 2"
| "severityOrdinal SevCritical = 3"

text \<open>
  \<^verbatim>\<open>calculateSeverity(difference, percentDiff, config, category)\<close>, branch by branch
  in the order of the source: the three absolute checks, the gate
  \<^verbatim>\<open>difference < warningAbsolute\<close>, then the three percentage checks.
\<close>

definition calculateSeverity ::
  "real \<Rightarrow> real \<Rightarrow> ValidationConfig \<Rightarrow> DataCategory option \<Rightarrow> DiscrepancySeverity" where
  "calculateSeverity diff pct config category =
     (let th = selectThresholds config category in
      if diff \<ge> criticalAbsolute th then SevCritical
      else if diff \<ge> warningAbsolute th then SevWarning
      else if diff \<ge> minorAbsolute th then SevMinor
      else if diff < warningAbsolute th then SevNone
      else if pct \<ge> critical th then SevCritical
      else if pct \<ge> warning th then SevWarning
      else if pct \<ge> minor th then SevMinor
      else SevNone)"

text \<open>
  What the three absolute checks alone yield (the first three branches of
  \<^const>\<open>calculateSeverity\<close>, with none when no check fires).
\<close>

definition absoluteSeverity :: "real \<Rightarrow> Thresholds \<Rightarrow> DiscrepancySeverity" where
  "absoluteSeverity diff th =
     (if diff \<ge> criticalAbsolute th then SevCritical
      else if diff \<ge> warningAbsolute th then SevWarning
      else if diff \<ge> minorAbsolute th then SevMinor
      else SevNone)"

record Discrepancy =
  category :: DataCategory
  field :: string
  scoutedValue :: real
  tbaValue :: real
  difference :: real
  percentDiff :: real
  severity :: DiscrepancySeverity

text \<open>\<^verbatim>\<open>Math.round(x)\<close>: the nearest integer, halves rounded up.\<close>

definition mathRound :: "real \<Rightarrow> real" where
  "mathRound x = of_int \<lfloor>x + 1 / 2\<rfloor>"

text \<open>
  The percentage difference computed at the head of \<^verbatim>\<open>createDiscrepancy\<close>:
  relative to the larger of the two values, 0 when that is 0.
\<close>

definition percentDiffOf :: "real \<Rightarrow> real \<Rightarrow> real" where
  "percentDiffOf scouted tba =
     (let mx = max scouted tba in
      if mx = 0 then 0 else (\<bar>scouted - tba\<bar> / mx) * 100)"

text \<open>
  \<^verbatim>\<open>createDiscrepancy\<close>: \<^verbatim>\<open>null\<close> (here \<^const>\<open>None\<close>) when the severity is none.
  The \<^verbatim>\<open>message\<close> string of the source, a formatted rendering of the other fields,
  is not modelled.
\<close>

definition createDiscrepancy ::
  "DataCategory \<Rightarrow> string \<Rightarrow> real \<Rightarrow> real \<Rightarrow> ValidationConfig \<Rightarrow> Discrepancy option" where
  "createDiscrepancy cat fld scouted tba config =
     (let diff = \<bar>scouted - tba\<bar>;
          pct = percentDiffOf scouted tba;
          sev = calculateSeverity diff pct config (Some cat)
      in if sev = SevNone then None
         else Some \<lparr> category = cat, field = fld, scoutedValue = scouted, tbaValue = tba,
                     difference = diff, percentDiff = mathRound (pct * 10) / 10,
                     severity = sev \<rparr>)"

text \<open>The severity a comparison reports: none for \<^verbatim>\<open>null\<close>.\<close>

definition reportedSeverity :: "Discrepancy option \<Rightarrow> DiscrepancySeverity" where
  "reportedSeverity d = (case d of None \<Rightarrow> SevNone | Some x \<Rightarrow> severity x)"

section \<open>Scouting entries and the two alliance aggregates\<close>

text \<open>
  \<^verbatim>\<open>ScoutingEntry\<close> (declared in \<^verbatim>\<open>scoutingTypes\<close>, whose text is not available), with the
  fields the aggregators read. A counter is only ever read as \<^verbatim>\<open>e.x || 0\<close> and a flag
  only for its truthiness, so an absent counter is the number 0 and an absent flag is
  \<^const>\<open>False\<close> here.
\<close>

record ScoutingEntry =
  matchNumber :: string
  alliance :: string
  scoutName :: string
  selectTeam :: string
  eventName :: string
  autoCoralPlaceL1Count :: real
  autoCoralPlaceL2Count :: real
  autoCoralPlaceL3Count :: real
  autoCoralPlaceL4Count :: real
  teleopCoralPlaceL1Count :: real
  teleopCoralPlaceL2Count :: real
  teleopCoralPlaceL3Count :: real
  teleopCoralPlaceL4Count :: real
  autoAlgaePlaceNetShot :: real
  autoAlgaePlaceProcessor :: real
  teleopAlgaePlaceNetShot :: real
  teleopAlgaePlaceProcessor :: real
  autoPassedStartLine :: bool
  deepClimbAttempted :: bool
  shallowClimbAttempted :: bool
  parkAttempted :: bool
  climbFailed :: bool
  brokeDown :: bool
  playedDefense :: bool

text \<open>\<^verbatim>\<open>entries.reduce((sum, e) => sum + f(e), 0)\<close>: a left fold from 0.\<close>

definition reduceSum :: "('a \<Rightarrow> real) \<Rightarrow> 'a list \<Rightarrow> real" where
  "reduceSum f es = foldl (\<lambda>sum e. sum + f e) 0 es"

text \<open>\<^verbatim>\<open>entries.filter(p).length\<close>.\<close>

definition filterLength :: "('a \<Rightarrow> bool) \<Rightarrow> 'a list \<Rightarrow> real" where
  "filterLength p es = real (length (filter p es))"

datatype AllianceColor = Red | Blue

text \<open>\<^verbatim>\<open>ScoutedAllianceData\<close>; the fields carry the prefix \<open>sc_\<close>.\<close>

record ScoutedAllianceData =
  sc_alliance :: AllianceColor
  sc_matchNumber :: string
  sc_eventName :: string
  sc_teams :: "string list"
  sc_scoutNames :: "string list"
  sc_autoCoralL1 :: real
  sc_autoCoralL2 :: real
  sc_autoCoralL3 :: real
  sc_autoCoralL4 :: real
  sc_autoCoralTotal :: real
  sc_autoAlgaeNet :: real
  sc_autoAlgaeProcessor :: real
  sc_autoAlgaeTotal :: real
  sc_autoMobility :: real
  sc_teleopCoralL1 :: real
  sc_teleopCoralL2 :: real
  sc_teleopCoralL3 :: real
  sc_teleopCoralL4 :: real
  sc_teleopCoralTotal :: real
  sc_teleopAlgaeNet :: real
  sc_teleopAlgaeProcessor :: real
  sc_teleopAlgaeTotal :: real
  sc_deepClimbs :: real
  sc_shallowClimbs :: real
  sc_parks :: real
  sc_climbFails :: real
  sc_brokeDown :: real
  sc_playedDefense :: real
  sc_missingTeams :: "string list"
  sc_scoutedTeamsCount :: nat

text \<open>
  \<^verbatim>\<open>aggregateScoutedAllianceData\<close>, the aggregate of the comparison path: the object
  is built with the four totals at 0, which are then assigned from the sums.
\<close>

definition aggregateScoutedAllianceData ::
  "ScoutingEntry list \<Rightarrow> AllianceColor \<Rightarrow> string \<Rightarrow> string \<Rightarrow> string list
     \<Rightarrow> ScoutedAllianceData" where
  "aggregateScoutedAllianceData scoutedEntries color matchNo event expectedTeams =
     (let teams = map selectTeam scoutedEntries;
          scoutNames = map scoutName scoutedEntries;
          missingTeams = filter (\<lambda>t. t \<notin> set teams) expectedTeams;
          b2n = (\<lambda>b. if b then 1 else (0::real));
          data =
            \<lparr> sc_alliance = color,
              sc_matchNumber = matchNo,
              sc_eventName = event,
              sc_teams = teams,
              sc_scoutNames = scoutNames,
              sc_autoCoralL1 = reduceSum autoCoralPlaceL1Count scoutedEntries,
              sc_autoCoralL2 = reduceSum autoCoralPlaceL2Count scoutedEntries,
              sc_autoCoralL3 = reduceSum autoCoralPlaceL3Count scoutedEntries,
              sc_autoCoralL4 = reduceSum autoCoralPlaceL4Count scoutedEntries,
              sc_autoCoralTotal = 0,
              sc_autoAlgaeNet = reduceSum autoAlgaePlaceNetShot scoutedEntries,
              sc_autoAlgaeProcessor = reduceSum autoAlgaePlaceProcessor scoutedEntries,
              sc_autoAlgaeTotal = 0,
              sc_autoMobility = reduceSum (\<lambda>e. b2n (autoPassedStartLine e)) scoutedEntries,
              sc_teleopCoralL1 = reduceSum teleopCoralPlaceL1Count scoutedEntries,
              sc_teleopCoralL2 = reduceSum teleopCoralPlaceL2Count scoutedEntries,
              sc_teleopCoralL3 = reduceSum teleopCoralPlaceL3Count scoutedEntries,
              sc_teleopCoralL4 = reduceSum teleopCoralPlaceL4Count scoutedEntries,
              sc_teleopCoralTotal = 0,
              sc_teleopAlgaeNet = reduceSum teleopAlgaePlaceNetShot scoutedEntries,
              sc_teleopAlgaeProcessor = reduceSum teleopAlgaePlaceProcessor scoutedEntries,
              sc_teleopAlgaeTotal = 0,
              sc_deepClimbs =
                reduceSum (\<lambda>e. b2n (deepClimbAttempted e \<and> \<not> climbFailed e)) scoutedEntries,
              sc_shallowClimbs =
                reduceSum (\<lambda>e. b2n (shallowClimbAttempted e \<and> \<not> climbFailed e)) scoutedEntries,
              sc_parks = reduceSum (\<lambda>e. b2n (parkAttempted e)) scoutedEntries,
              sc_climbFails = reduceSum (\<lambda>e. b2n (climbFailed e)) scoutedEntries,
              sc_brokeDown = reduceSum (\<lambda>e. b2n (brokeDown e)) scoutedEntries,
              sc_playedDefense = reduceSum (\<lambda>e. b2n (playedDefense e)) scoutedEntries,
              sc_missingTeams = missingTeams,
              sc_scoutedTeamsCount = length scoutedEntries \<rparr>
      in data
           \<lparr> sc_autoCoralTotal :=
               sc_autoCoralL1 data + sc_autoCoralL2 data + sc_autoCoralL3 data + sc_autoCoralL4 data,
             sc_autoAlgaeTotal := sc_autoAlgaeNet data + sc_autoAlgaeProcessor data,
             sc_teleopCoralTotal :=
               sc_teleopCoralL1 data + sc_teleopCoralL2 data + sc_teleopCoralL3 data
                 + sc_teleopCoralL4 data,
             sc_teleopAlgaeTotal := sc_teleopAlgaeNet data + sc_teleopAlgaeProcessor data \<rparr>)"

text \<open>\<^verbatim>\<open>AllianceStats\<close>, the aggregate of the display path; fields prefixed \<open>st_\<close>.\<close>

record AllianceStats =
  st_autoCoralL1 :: real
  st_autoCoralL2 :: real
  st_autoCoralL3 :: real
  st_autoCoralL4 :: real
  st_autoCoralTotal :: real
  st_teleopCoralL1 :: real
  st_teleopCoralL2 :: real
  st_teleopCoralL3 :: real
  st_teleopCoralL4 :: real
  st_teleopCoralTotal :: real
  st_totalCoralL1 :: real
  st_totalCoralL2 :: real
  st_totalCoralL3 :: real
  st_totalCoralL4 :: real
  st_totalCoral :: real
  st_autoAlgaeNet :: real
  st_autoAlgaeProcessor :: real
  st_autoAlgaeTotal :: real
  st_teleopAlgaeNet :: real
  st_teleopAlgaeProcessor :: real
  st_teleopAlgaeTotal :: real
  st_totalAlgaeNet :: real
  st_totalAlgaeProcessor :: real
  st_totalAlgae :: real
  st_deepClimbs :: real
  st_shallowClimbs :: real
  st_parks :: real
  st_noEndgame :: real
  st_climbFailures :: real
  st_teamsPassedStartLine :: real
  st_breakdowns :: real
  st_defensePlayedCount :: real

definition createEmptyAllianceStats :: AllianceStats where
  "createEmptyAllianceStats =
     \<lparr> st_autoCoralL1 = 0, st_autoCoralL2 = 0, st_autoCoralL3 = 0, st_autoCoralL4 = 0,
       st_autoCoralTotal = 0,
       st_teleopCoralL1 = 0, st_teleopCoralL2 = 0, st_teleopCoralL3 = 0, st_teleopCoralL4 = 0,
       st_teleopCoralTotal = 0,
       st_totalCoralL1 = 0, st_totalCoralL2 = 0, st_totalCoralL3 = 0, st_totalCoralL4 = 0,
       st_totalCoral = 0,
       st_autoAlgaeNet = 0, st_autoAlgaeProcessor = 0, st_autoAlgaeTotal = 0,
       st_teleopAlgaeNet = 0, st_teleopAlgaeProcessor = 0, st_teleopAlgaeTotal = 0,
       st_totalAlgaeNet = 0, st_totalAlgaeProcessor = 0, st_totalAlgae = 0,
       st_deepClimbs = 0, st_shallowClimbs = 0, st_parks = 0, st_noEndgame = 0,
       st_climbFailures = 0,
       st_teamsPassedStartLine = 0,
       st_breakdowns = 0, st_defensePlayedCount = 0 \<rparr>"

definition calculateAllianceStats :: "ScoutingEntry list \<Rightarrow> AllianceStats" where
  "calculateAllianceStats entries =
     (if length entries = 0 then createEmptyAllianceStats
      else
        \<lparr> st_autoCoralL1 = reduceSum autoCoralPlaceL1Count entries,
          st_autoCoralL2 = reduceSum autoCoralPlaceL2Count entries,
          st_autoCoralL3 = reduceSum autoCoralPlaceL3Count entries,
          st_autoCoralL4 = reduceSum autoCoralPlaceL4Count entries,
          st_autoCoralTotal =
            foldl (\<lambda>sum e. sum + autoCoralPlaceL1Count e + autoCoralPlaceL2Count e
                     + autoCoralPlaceL3Count e + autoCoralPlaceL4Count e) 0 entries,
          st_teleopCoralL1 = reduceSum teleopCoralPlaceL1Count entries,
          st_teleopCoralL2 = reduceSum teleopCoralPlaceL2Count entries,
          st_teleopCoralL3 = reduceSum teleopCoralPlaceL3Count entries,
          st_teleopCoralL4 = reduceSum teleopCoralPlaceL4Count entries,
          st_teleopCoralTotal =
            foldl (\<lambda>sum e. sum + teleopCoralPlaceL1Count e + teleopCoralPlaceL2Count e
                     + teleopCoralPlaceL3Count e + teleopCoralPlaceL4Count e) 0 entries,
          st_totalCoralL1 =
            foldl (\<lambda>sum e. sum + autoCoralPlaceL1Count e + teleopCoralPlaceL1Count e) 0 entries,
          st_totalCoralL2 =
            foldl (\<lambda>sum e. sum + autoCoralPlaceL2Count e + teleopCoralPlaceL2Count e) 0 entries,
          st_totalCoralL3 =
            foldl (\<lambda>sum e. sum + autoCoralPlaceL3Count e + teleopCoralPlaceL3Count e) 0 entries,
          st_totalCoralL4 =
            foldl (\<lambda>sum e. sum + autoCoralPlaceL4Count e + teleopCoralPlaceL4Count e) 0 entries,
          st_totalCoral =
            foldl (\<lambda>sum e. sum + autoCoralPlaceL1Count e + autoCoralPlaceL2Count e
                     + autoCoralPlaceL3Count e + autoCoralPlaceL4Count e
                     + teleopCoralPlaceL1Count e + teleopCoralPlaceL2Count e
                     + teleopCoralPlaceL3Count e + teleopCoralPlaceL4Count e) 0 entries,
          st_autoAlgaeNet = reduceSum autoAlgaePlaceNetShot entries,
          st_autoAlgaeProcessor = reduceSum autoAlgaePlaceProcessor entries,
          st_autoAlgaeTotal =
            foldl (\<lambda>sum e. sum + autoAlgaePlaceNetShot e + autoAlgaePlaceProcessor e) 0 entries,
          st_teleopAlgaeNet = reduceSum teleopAlgaePlaceNetShot entries,
          st_teleopAlgaeProcessor = reduceSum teleopAlgaePlaceProcessor entries,
          st_teleopAlgaeTotal =
            foldl (\<lambda>sum e. sum + teleopAlgaePlaceNetShot e + teleopAlgaePlaceProcessor e) 0 entries,
          st_totalAlgaeNet =
            foldl (\<lambda>sum e. sum + autoAlgaePlaceNetShot e + teleopAlgaePlaceNetShot e) 0 entries,
          st_totalAlgaeProcessor =
            foldl (\<lambda>sum e. sum + autoAlgaePlaceProcessor e + teleopAlgaePlaceProcessor e) 0 entries,
          st_totalAlgae =
            foldl (\<lambda>sum e. sum + autoAlgaePlaceNetShot e + autoAlgaePlaceProcessor e
                     + teleopAlgaePlaceNetShot e + teleopAlgaePlaceProcessor e) 0 entries,
          st_deepClimbs = filterLength deepClimbAttempted entries,
          st_shallowClimbs = filterLength shallowClimbAttempted entries,
          st_parks = filterLength parkAttempted entries,
          st_noEndgame =
            filterLength (\<lambda>e. \<not> deepClimbAttempted e \<and> \<not> shallowClimbAttempted e
                            \<and> \<not> parkAttempted e) entries,
          st_climbFailures = filterLength climbFailed entries,
          st_teamsPassedStartLine = filterLength autoPassedStartLine entries,
          st_breakdowns = filterLength brokeDown entries,
          st_defensePlayedCount = filterLength playedDefense entries \<rparr>)"

section \<open>Official alliance data and the alliance comparison\<close>

text \<open>\<^verbatim>\<open>TBAAllianceData\<close>, the official figures of one alliance; fields prefixed \<open>tba_\<close>.\<close>

record TBAAllianceData =
  tba_alliance :: AllianceColor
  tba_teams :: "string list"
  tba_totalPoints :: real
  tba_autoPoints :: real
  tba_teleopPoints :: real
  tba_foulPoints :: real
  tba_autoCoralL1 :: real
  tba_autoCoralL2 :: real
  tba_autoCoralL3 :: real
  tba_autoCoralL4 :: real
  tba_autoCoralTotal :: real
  tba_autoCoralPoints :: real
  tba_teleopCoralL1 :: real
  tba_teleopCoralL2 :: real
  tba_teleopCoralL3 :: real
  tba_teleopCoralL4 :: real
  tba_teleopCoralTotal :: real
  tba_teleopCoralPoints :: real
  tba_algaeNet :: real
  tba_algaeProcessor :: real
  tba_algaeTotal :: real
  tba_algaePoints :: real
  tba_mobilityCount :: real
  tba_mobilityPoints :: real
  tba_deepClimbs :: real
  tba_shallowClimbs :: real
  tba_parks :: real
  tba_endgamePoints :: real
  tba_autoBonusAchieved :: bool
  tba_coralBonusAchieved :: bool
  tba_bargeBonusAchieved :: bool
  tba_foulCount :: real
  tba_techFoulCount :: real

datatype ValidationStatus = Passed | Flagged | Failed

datatype ConfidenceLevel = High | Medium | Low

record ScoutedPointsBreakdown =
  sp_autoCoralPts :: real
  sp_autoAlgaePts :: real
  sp_mobilityPts :: real
  sp_teleopCoralPts :: real
  sp_teleopAlgaePts :: real
  sp_endgamePts :: real

record TBAPointsBreakdown =
  tp_autoCoralPts :: real
  tp_teleopCoralPts :: real
  tp_algaePts :: real
  tp_mobilityPts :: real
  tp_endgamePts :: real

record CalculationBreakdown =
  cb_scouted :: ScoutedPointsBreakdown
  cb_tba :: TBAPointsBreakdown

text \<open>\<^verbatim>\<open>AllianceValidation\<close>, the result of one alliance comparison; fields prefixed \<open>av_\<close>.\<close>

record AllianceValidation =
  av_alliance :: AllianceColor
  av_status :: ValidationStatus
  av_confidence :: ConfidenceLevel
  av_discrepancies :: "Discrepancy list"
  av_totalScoutedPoints :: real
  av_totalTBAPoints :: real
  av_scoreDifference :: real
  av_scorePercentDiff :: real
  av_scoutedData :: ScoutedAllianceData
  av_tbaData :: TBAAllianceData
  av_calculationBreakdown :: CalculationBreakdown

text \<open>
  \<^verbatim>\<open>if (d) discrepancies.push(d)\<close> over a run of comparisons: the results that are not
  \<^verbatim>\<open>null\<close>, in order.
\<close>

fun pushPresent :: "'a option list \<Rightarrow> 'a list" where
  "pushPresent [] = []"
| "pushPresent (None # ds) = pushPresent ds"
| "pushPresent (Some d # ds) = d # pushPresent ds"

text \<open>\<^verbatim>\<open>discrepancies.filter(d => d.severity === s).length\<close>.\<close>

definition countSeverity :: "DiscrepancySeverity \<Rightarrow> Discrepancy list \<Rightarrow> nat" where
  "countSeverity s ds = length (filter (\<lambda>d. severity d = s) ds)"

text \<open>The auto coral block of \<^verbatim>\<open>compareAllianceData\<close>.\<close>

definition autoCoralComparison ::
  "ScoutedAllianceData \<Rightarrow> TBAAllianceData \<Rightarrow> ValidationConfig \<Rightarrow> Discrepancy list" where
  "autoCoralComparison scoutedData tbaData config =
     (if checkAutoScoring config then
        pushPresent
          [createDiscrepancy AutoCoral ''Auto Coral L1''
             (sc_autoCoralL1 scoutedData) (tba_autoCoralL1 tbaData) config,
           createDiscrepancy AutoCoral ''Auto Coral L2''
             (sc_autoCoralL2 scoutedData) (tba_autoCoralL2 tbaData) config,
           createDiscrepancy AutoCoral ''Auto Coral L3''
             (sc_autoCoralL3 scoutedData) (tba_autoCoralL3 tbaData) config,
           createDiscrepancy AutoCoral ''Auto Coral L4''
             (sc_autoCoralL4 scoutedData) (tba_autoCoralL4 tbaData) config,
           createDiscrepancy AutoCoral ''Auto Coral Total''
             (sc_autoCoralTotal scoutedData) (tba_autoCoralTotal tbaData) config]
      else [])"

text \<open>
  The teleop coral block. The official teleop counts are final counts that include the
  auto period, so the block first derives the teleop-only official figures
  \<^verbatim>\<open>tbaActualTeleopL1\<close> ... \<^verbatim>\<open>tbaActualTeleopTotal\<close>.
\<close>

definition tbaActualTeleopL1 :: "TBAAllianceData \<Rightarrow> real" where
  "tbaActualTeleopL1 tbaData = max 0 (tba_teleopCoralL1 tbaData - tba_autoCoralL1 tbaData)"

definition tbaActualTeleopL2 :: "TBAAllianceData \<Rightarrow> real" where
  "tbaActualTeleopL2 tbaData = max 0 (tba_teleopCoralL2 tbaData - tba_autoCoralL2 tbaData)"

definition tbaActualTeleopL3 :: "TBAAllianceData \<Rightarrow> real" where
  "tbaActualTeleopL3 tbaData = max 0 (tba_teleopCoralL3 tbaData - tba_autoCoralL3 tbaData)"

definition tbaActualTeleopL4 :: "TBAAllianceData \<Rightarrow> real" where
  "tbaActualTeleopL4 tbaData = max 0 (tba_teleopCoralL4 tbaData - tba_autoCoralL4 tbaData)"

definition tbaActualTeleopTotal :: "TBAAllianceData \<Rightarrow> real" where
  "tbaActualTeleopTotal tbaData =
     tbaActualTeleopL1 tbaData + tbaActualTeleopL2 tbaData + tbaActualTeleopL3 tbaData
       + tbaActualTeleopL4 tbaData"

definition teleopCoralComparison ::
  "ScoutedAllianceData \<Rightarrow> TBAAllianceData \<Rightarrow> ValidationConfig \<Rightarrow> Discrepancy list" where
  "teleopCoralComparison scoutedData tbaData config =
     (if checkTeleopScoring config then
        pushPresent
          [createDiscrepancy TeleopCoral ''Teleop Coral L1''
             (sc_teleopCoralL1 scoutedData) (tbaActualTeleopL1 tbaData) config,
           createDiscrepancy TeleopCoral ''Teleop Coral L2''
             (sc_teleopCoralL2 scoutedData) (tbaActualTeleopL2 tbaData) config,
           createDiscrepancy TeleopCoral ''Teleop Coral L3''
             (sc_teleopCoralL3 scoutedData) (tbaActualTeleopL3 tbaData) config,
           createDiscrepancy TeleopCoral ''Teleop Coral L4''
             (sc_teleopCoralL4 scoutedData) (tbaActualTeleopL4 tbaData) config,
           createDiscrepancy TeleopCoral ''Teleop Coral Total''
             (sc_teleopCoralTotal scoutedData) (tbaActualTeleopTotal tbaData) config]
      else [])"

text \<open>The algae block (auto and teleop combined) and the mobility check; both unconditional.\<close>

definition algaeComparison ::
  "ScoutedAllianceData \<Rightarrow> TBAAllianceData \<Rightarrow> ValidationConfig \<Rightarrow> Discrepancy list" where
  "algaeComparison scoutedData tbaData config =
     (let scoutedAlgaeNet = sc_autoAlgaeNet scoutedData + sc_teleopAlgaeNet scoutedData;
          scoutedAlgaeProc =
            sc_autoAlgaeProcessor scoutedData + sc_teleopAlgaeProcessor scoutedData;
          scoutedAlgaeTotal = scoutedAlgaeNet + scoutedAlgaeProc
      in pushPresent
           [createDiscrepancy Algae ''Total Algae Net'' scoutedAlgaeNet (tba_algaeNet tbaData) config,
            createDiscrepancy Algae ''Total Algae Processor''
              scoutedAlgaeProc (tba_algaeProcessor tbaData) config,
            createDiscrepancy Algae ''Total Algae''
              scoutedAlgaeTotal (tba_algaeTotal tbaData) config])"

definition mobilityComparison ::
  "ScoutedAllianceData \<Rightarrow> TBAAllianceData \<Rightarrow> ValidationConfig \<Rightarrow> Discrepancy list" where
  "mobilityComparison scoutedData tbaData config =
     pushPresent
       [createDiscrepancy Mobility ''Mobility Count''
          (sc_autoMobility scoutedData) (tba_mobilityCount tbaData) config]"

definition endgameComparison ::
  "ScoutedAllianceData \<Rightarrow> TBAAllianceData \<Rightarrow> ValidationConfig \<Rightarrow> Discrepancy list" where
  "endgameComparison scoutedData tbaData config =
     (if checkEndgame config then
        pushPresent
          [createDiscrepancy Endgame ''Deep Climbs''
             (sc_deepClimbs scoutedData) (tba_deepClimbs tbaData) config,
           createDiscrepancy Endgame ''Shallow Climbs''
             (sc_shallowClimbs scoutedData) (tba_shallowClimbs tbaData) config,
           createDiscrepancy Endgame ''Parks''
             (sc_parks scoutedData) (tba_parks tbaData) config]
      else [])"

text \<open>The discrepancy list of \<^verbatim>\<open>compareAllianceData\<close>: the five blocks in source order.\<close>

definition allianceDiscrepancies ::
  "ScoutedAllianceData \<Rightarrow> TBAAllianceData \<Rightarrow> ValidationConfig \<Rightarrow> Discrepancy list" where
  "allianceDiscrepancies scoutedData tbaData config =
     autoCoralComparison scoutedData tbaData config
     @ teleopCoralComparison scoutedData tbaData config
     @ algaeComparison scoutedData tbaData config
     @ mobilityComparison scoutedData tbaData config
     @ endgameComparison scoutedData tbaData config"

text \<open>
  \<^verbatim>\<open>compareAllianceData\<close>: the discrepancies, the estimated scouted score with the
  point values written inline as in the source, the official breakdown score, then
  status and confidence. The diagnostic \<^verbatim>\<open>console.log\<close> has no effect on the result
  and is left out.
\<close>

definition compareAllianceData ::
  "ScoutedAllianceData \<Rightarrow> TBAAllianceData \<Rightarrow> ValidationConfig \<Rightarrow> AllianceValidation" where
  "compareAllianceData scoutedData tbaData config =
     (let discrepancies = allianceDiscrepancies scoutedData tbaData config;
          scoutedAutoCoralPoints =
            (sc_autoCoralL1 scoutedData * 3) + (sc_autoCoralL2 scoutedData * 4)
              + (sc_autoCoralL3 scoutedData * 6) + (sc_autoCoralL4 scoutedData * 7);
          scoutedAutoAlgaePoints =
            (sc_autoAlgaeNet scoutedData * 4) + (sc_autoAlgaeProcessor scoutedData * 6);
          scoutedMobilityPoints = sc_autoMobility scoutedData * 3;
          scoutedTeleopCoralPoints =
            (sc_teleopCoralL1 scoutedData * 2) + (sc_teleopCoralL2 scoutedData * 3)
              + (sc_teleopCoralL3 scoutedData * 4) + (sc_teleopCoralL4 scoutedData * 5);
          scoutedTeleopAlgaePoints =
            (sc_teleopAlgaeNet scoutedData * 4) + (sc_teleopAlgaeProcessor scoutedData * 6);
          scoutedEndgamePoints =
            (sc_parks scoutedData * 2) + (sc_shallowClimbs scoutedData * 6)
              + (sc_deepClimbs scoutedData * 12);
          estimatedScoutedScore =
            scoutedAutoCoralPoints + scoutedAutoAlgaePoints + scoutedMobilityPoints
              + scoutedTeleopCoralPoints + scoutedTeleopAlgaePoints + scoutedEndgamePoints;
          tbaBreakdownScore =
            tba_autoCoralPoints tbaData + tba_teleopCoralPoints tbaData + tba_algaePoints tbaData
              + tba_mobilityPoints tbaData + tba_endgamePoints tbaData;
          scoreDifference = \<bar>estimatedScoutedScore - tbaBreakdownScore\<bar>;
          scorePercentDiff =
            (if tbaBreakdownScore = 0 then 0 else (scoreDifference / tbaBreakdownScore) * 100);
          criticalCount = countSeverity SevCritical discrepancies;
          warningCount = countSeverity SevWarning discrepancies;
          minorCount = countSeverity SevMinor discrepancies;
          status =
            (if real criticalCount \<ge> autoFlagThreshold config then Failed
             else if criticalCount > 0 then Flagged
             else if warningCount > 2 then Flagged
             else if warningCount > 0 \<or> minorCount > 3 then Flagged
             else Passed);
          confidence =
            (if length (sc_missingTeams scoutedData) > 0 then Low
             else if criticalCount > 0 then Low
             else if warningCount > 2 then Medium
             else High)
      in \<lparr> av_alliance = sc_alliance scoutedData,
           av_status = status,
           av_confidence = confidence,
           av_discrepancies = discrepancies,
           av_totalScoutedPoints = estimatedScoutedScore,
           av_totalTBAPoints = tbaBreakdownScore,
           av_scoreDifference = scoreDifference,
           av_scorePercentDiff = mathRound (scorePercentDiff * 10) / 10,
           av_scoutedData = scoutedData,
           av_tbaData = tbaData,
           av_calculationBreakdown =
             \<lparr> cb_scouted =
                 \<lparr> sp_autoCoralPts = scoutedAutoCoralPoints,
                   sp_autoAlgaePts = scoutedAutoAlgaePoints,
                   sp_mobilityPts = scoutedMobilityPoints,
                   sp_teleopCoralPts = scoutedTeleopCoralPoints,
                   sp_teleopAlgaePts = scoutedTeleopAlgaePoints,
                   sp_endgamePts = scoutedEndgamePoints \<rparr>,
               cb_tba =
                 \<lparr> tp_autoCoralPts = tba_autoCoralPoints tbaData,
                   tp_teleopCoralPts = tba_teleopCoralPoints tbaData,
                   tp_algaePts = tba_algaePoints tbaData,
                   tp_mobilityPts = tba_mobilityPoints tbaData,
                   tp_endgamePts = tba_endgamePoints tbaData \<rparr> \<rparr> \<rparr>)"

section \<open>Official match payload and match validation\<close>

text \<open>
  The official payload (\<^verbatim>\<open>TBAMatchData\<close>, declared in \<^verbatim>\<open>tbaMatchData\<close>, whose text
  is not available), with the fields \<^verbatim>\<open>extractTBAAllianceData\<close> and \<^verbatim>\<open>validateMatch\<close> read. The
  score breakdown is optional, as a whole and per alliance.
\<close>

record TBAReef =
  trough :: real
  tba_botRowCount :: real
  tba_midRowCount :: real
  tba_topRowCount :: real

record TBABreakdown =
  autoLineRobot1 :: string
  autoLineRobot2 :: string
  autoLineRobot3 :: string
  endGameRobot1 :: string
  endGameRobot2 :: string
  endGameRobot3 :: string
  autoPoints :: real
  teleopPoints :: real
  foulPoints :: real
  autoReef :: TBAReef
  teleopReef :: TBAReef
  autoCoralCount :: real
  autoCoralPoints :: real
  teleopCoralCount :: real
  teleopCoralPoints :: real
  netAlgaeCount :: real
  wallAlgaeCount :: real
  algaePoints :: real
  autoMobilityPoints :: real
  endGameBargePoints :: real
  autoBonusAchieved :: bool
  coralBonusAchieved :: bool
  bargeBonusAchieved :: bool
  foulCount :: real
  techFoulCount :: real

record TBAAlliance =
  team_keys :: "string list"
  score :: real

record TBAMatchData =
  key :: string
  comp_level :: string
  alliances :: "AllianceColor \<Rightarrow> TBAAlliance"
  score_breakdown :: "(AllianceColor \<rightharpoonup> TBABreakdown) option"

text \<open>
  \<^verbatim>\<open>extractTBAAllianceData\<close>. The text of the helper \<^verbatim>\<open>extractTeamNumber\<close> of
  \<^verbatim>\<open>tbaUtils\<close> is not available; it is the parameter \<open>extractTeamNumber\<close>.
\<close>

definition extractTBAAllianceData ::
  "(string \<Rightarrow> string) \<Rightarrow> TBAMatchData \<Rightarrow> AllianceColor \<Rightarrow> TBAAllianceData" where
  "extractTBAAllianceData extractTeamNumber tbaMatch color =
     (let allianceData = alliances tbaMatch color;
          breakdown = (case score_breakdown tbaMatch of None \<Rightarrow> None | Some sb \<Rightarrow> sb color)
      in case breakdown of
           None \<Rightarrow>
             \<lparr> tba_alliance = color,
               tba_teams = map extractTeamNumber (team_keys allianceData),
               tba_totalPoints = score allianceData,
               tba_autoPoints = 0, tba_teleopPoints = 0, tba_foulPoints = 0,
               tba_autoCoralL1 = 0, tba_autoCoralL2 = 0, tba_autoCoralL3 = 0,
               tba_autoCoralL4 = 0, tba_autoCoralTotal = 0, tba_autoCoralPoints = 0,
               tba_teleopCoralL1 = 0, tba_teleopCoralL2 = 0, tba_teleopCoralL3 = 0,
               tba_teleopCoralL4 = 0, tba_teleopCoralTotal = 0, tba_teleopCoralPoints = 0,
               tba_algaeNet = 0, tba_algaeProcessor = 0, tba_algaeTotal = 0, tba_algaePoints = 0,
               tba_mobilityCount = 0, tba_mobilityPoints = 0,
               tba_deepClimbs = 0, tba_shallowClimbs = 0, tba_parks = 0, tba_endgamePoints = 0,
               tba_autoBonusAchieved = False, tba_coralBonusAchieved = False,
               tba_bargeBonusAchieved = False,
               tba_foulCount = 0, tba_techFoulCount = 0 \<rparr>
         | Some bd \<Rightarrow>
             (let mobilityCount =
                    reduceSum (\<lambda>val. val)
                      [if autoLineRobot1 bd = ''Yes'' then 1 else 0,
                       if autoLineRobot2 bd = ''Yes'' then 1 else 0,
                       if autoLineRobot3 bd = ''Yes'' then 1 else 0];
                  endgameStates = [endGameRobot1 bd, endGameRobot2 bd, endGameRobot3 bd];
                  deepClimbs = filterLength (\<lambda>s. s = ''DeepCage'') endgameStates;
                  shallowClimbs = filterLength (\<lambda>s. s = ''ShallowCage'') endgameStates;
                  parks = filterLength (\<lambda>s. s = ''Parked'') endgameStates
              in \<lparr> tba_alliance = color,
                   tba_teams = map extractTeamNumber (team_keys allianceData),
                   tba_totalPoints = score allianceData,
                   tba_autoPoints = autoPoints bd,
                   tba_teleopPoints = teleopPoints bd,
                   tba_foulPoints = foulPoints bd,
                   tba_autoCoralL1 = trough (autoReef bd),
                   tba_autoCoralL2 = tba_botRowCount (autoReef bd),
                   tba_autoCoralL3 = tba_midRowCount (autoReef bd),
                   tba_autoCoralL4 = tba_topRowCount (autoReef bd),
                   tba_autoCoralTotal = autoCoralCount bd,
                   tba_autoCoralPoints = autoCoralPoints bd,
                   tba_teleopCoralL1 = trough (teleopReef bd),
                   tba_teleopCoralL2 = tba_botRowCount (teleopReef bd),
                   tba_teleopCoralL3 = tba_midRowCount (teleopReef bd),
                   tba_teleopCoralL4 = tba_topRowCount (teleopReef bd),
                   tba_teleopCoralTotal = teleopCoralCount bd,
                   tba_teleopCoralPoints = teleopCoralPoints bd,
                   tba_algaeNet = netAlgaeCount bd,
                   tba_algaeProcessor = wallAlgaeCount bd,
                   tba_algaeTotal = netAlgaeCount bd + wallAlgaeCount bd,
                   tba_algaePoints = algaePoints bd,
                   tba_mobilityCount = mobilityCount,
                   tba_mobilityPoints = autoMobilityPoints bd,
                   tba_deepClimbs = deepClimbs,
                   tba_shallowClimbs = shallowClimbs,
                   tba_parks = parks,
                   tba_endgamePoints = endGameBargePoints bd,
                   tba_autoBonusAchieved = autoBonusAchieved bd,
                   tba_coralBonusAchieved = coralBonusAchieved bd,
                   tba_bargeBonusAchieved = bargeBonusAchieved bd,
                   tba_foulCount = foulCount bd,
                   tba_techFoulCount = techFoulCount bd \<rparr>))"

text \<open>
  A stored record (\<^verbatim>\<open>ScoutingEntryDB\<close> of \<^verbatim>\<open>dexieDB\<close>, whose text is not available) with the
  fields read by match validation and by the merge lookups; fields prefixed \<open>db_\<close>.
  Optional fields are options.
\<close>

record ScoutingEntryDB =
  db_id :: string
  db_matchNumber :: string
  db_teamNumber :: string
  db_alliance :: "string option"
  db_eventName :: string
  db_isCorrected :: "bool option"
  db_correctionCount :: "real option"
  db_lastCorrectedAt :: "real option"
  db_lastCorrectedBy :: "string option"
  db_correctionNotes :: "string option"
  db_originalScoutName :: "string option"

record AutoBreakdown =
  ab_L1 :: real
  ab_L2 :: real
  ab_L3 :: real
  ab_L4 :: real
  ab_algaeNet :: real
  ab_algaeProcessor :: real
  ab_mobility :: bool

record TeleopBreakdown =
  tb_L1 :: real
  tb_L2 :: real
  tb_L3 :: real
  tb_L4 :: real
  tb_algaeNet :: real
  tb_algaeProcessor :: real

record EndgameBreakdown =
  eb_deep :: bool
  eb_shallow :: bool
  eb_park :: bool

record ScoringBreakdown =
  sb_auto :: AutoBreakdown
  sb_teleop :: TeleopBreakdown
  sb_endgame :: EndgameBreakdown

text \<open>\<^verbatim>\<open>TeamValidation\<close>; fields prefixed \<open>tv_\<close>.\<close>

record TeamValidation =
  tv_teamNumber :: string
  tv_alliance :: AllianceColor
  tv_scoutName :: string
  tv_hasScoutedData :: bool
  tv_discrepancies :: "Discrepancy list"
  tv_confidence :: ConfidenceLevel
  tv_flagForReview :: bool
  tv_notes :: "string list"
  tv_isCorrected :: "bool option"
  tv_correctionCount :: "real option"
  tv_lastCorrectedAt :: "real option"
  tv_lastCorrectedBy :: "string option"
  tv_correctionNotes :: "string option"
  tv_originalScoutName :: "string option"
  tv_scoringBreakdown :: "ScoringBreakdown option"

text \<open>
  The body of the two \<^verbatim>\<open>forEach\<close> loops of \<^verbatim>\<open>validateMatch\<close> that build the team list;
  the source repeats it for red and blue, here the colour is an argument.
  \<^verbatim>\<open>rawEntry?.x\<close> is the field of the raw record found, if any.
\<close>

definition teamValidationOf ::
  "AllianceColor \<Rightarrow> ScoutingEntry list \<Rightarrow> ScoutingEntryDB list option \<Rightarrow> AllianceValidation
     \<Rightarrow> string \<Rightarrow> TeamValidation" where
  "teamValidationOf color scoutedEntries scoutedRaw validation teamNum =
     (let hasData = list_ex (\<lambda>e. selectTeam e = teamNum) scoutedEntries;
          scoutEntry = find (\<lambda>e. selectTeam e = teamNum) scoutedEntries;
          rawEntry =
            (case scoutedRaw of None \<Rightarrow> None
             | Some raw \<Rightarrow> find (\<lambda>e. db_teamNumber e = teamNum) raw)
      in \<lparr> tv_teamNumber = teamNum,
           tv_alliance = color,
           tv_scoutName =
             (case scoutEntry of None \<Rightarrow> ''Unknown''
              | Some e \<Rightarrow> if scoutName e = [] then ''Unknown'' else scoutName e),
           tv_hasScoutedData = hasData,
           tv_discrepancies = [],
           tv_confidence = (if hasData then av_confidence validation else Low),
           tv_flagForReview = (\<not> hasData \<or> av_status validation = Flagged),
           tv_notes = (if hasData then [] else [''No scouted data for this team'']),
           tv_isCorrected = Option.bind rawEntry db_isCorrected,
           tv_correctionCount = Option.bind rawEntry db_correctionCount,
           tv_lastCorrectedAt = Option.bind rawEntry db_lastCorrectedAt,
           tv_lastCorrectedBy = Option.bind rawEntry db_lastCorrectedBy,
           tv_correctionNotes = Option.bind rawEntry db_correctionNotes,
           tv_originalScoutName = Option.bind rawEntry db_originalScoutName,
           tv_scoringBreakdown =
             map_option
               (\<lambda>e. \<lparr> sb_auto =
                         \<lparr> ab_L1 = autoCoralPlaceL1Count e, ab_L2 = autoCoralPlaceL2Count e,
                           ab_L3 = autoCoralPlaceL3Count e, ab_L4 = autoCoralPlaceL4Count e,
                           ab_algaeNet = autoAlgaePlaceNetShot e,
                           ab_algaeProcessor = autoAlgaePlaceProcessor e,
                           ab_mobility = autoPassedStartLine e \<rparr>,
                       sb_teleop =
                         \<lparr> tb_L1 = teleopCoralPlaceL1Count e, tb_L2 = teleopCoralPlaceL2Count e,
                           tb_L3 = teleopCoralPlaceL3Count e, tb_L4 = teleopCoralPlaceL4Count e,
                           tb_algaeNet = teleopAlgaePlaceNetShot e,
                           tb_algaeProcessor = teleopAlgaePlaceProcessor e \<rparr>,
                       sb_endgame =
                         \<lparr> eb_deep = deepClimbAttempted e, eb_shallow = shallowClimbAttempted e,
                           eb_park = parkAttempted e \<rparr> \<rparr>)
               scoutEntry \<rparr>)"

text \<open>
  \<^verbatim>\<open>MatchValidationResult\<close>; fields prefixed \<open>mv_\<close>. The time stamp
  \<^verbatim>\<open>validatedAt: Date.now()\<close> is not modelled.
\<close>

record MatchValidationResult =
  mv_id :: string
  mv_eventKey :: string
  mv_matchKey :: string
  mv_matchNumber :: string
  mv_compLevel :: string
  mv_status :: ValidationStatus
  mv_confidence :: ConfidenceLevel
  mv_redAlliance :: AllianceValidation
  mv_blueAlliance :: AllianceValidation
  mv_teams :: "TeamValidation list"
  mv_totalDiscrepancies :: nat
  mv_criticalDiscrepancies :: nat
  mv_warningDiscrepancies :: nat
  mv_flaggedForReview :: bool
  mv_requiresReScout :: bool

definition validateMatch ::
  "(string \<Rightarrow> string) \<Rightarrow> string \<Rightarrow> string \<Rightarrow> ScoutingEntry list \<Rightarrow> ScoutingEntry list
     \<Rightarrow> TBAMatchData \<Rightarrow> ValidationConfig
     \<Rightarrow> ScoutingEntryDB list option \<Rightarrow> ScoutingEntryDB list option
     \<Rightarrow> MatchValidationResult" where
  "validateMatch extractTeamNumber eventKey matchNo scoutedRedEntries scoutedBlueEntries
       tbaMatch config scoutedRedRaw scoutedBlueRaw =
     (let tbaRed = extractTBAAllianceData extractTeamNumber tbaMatch Red;
          tbaBlue = extractTBAAllianceData extractTeamNumber tbaMatch Blue;
          scoutedRed =
            aggregateScoutedAllianceData scoutedRedEntries Red matchNo eventKey (tba_teams tbaRed);
          scoutedBlue =
            aggregateScoutedAllianceData scoutedBlueEntries Blue matchNo eventKey
              (tba_teams tbaBlue);
          redValidation = compareAllianceData scoutedRed tbaRed config;
          blueValidation = compareAllianceData scoutedBlue tbaBlue config;
          allDiscrepancies = av_discrepancies redValidation @ av_discrepancies blueValidation;
          criticalCount = countSeverity SevCritical allDiscrepancies;
          warningCount = countSeverity SevWarning allDiscrepancies;
          minorCount = countSeverity SevMinor allDiscrepancies;
          status =
            (if real criticalCount \<ge> requireReScoutThreshold config then Failed
             else if real criticalCount \<ge> autoFlagThreshold config then Flagged
             else if warningCount > 2 then Flagged
             else if warningCount > 0 \<or> minorCount > 6 then Flagged
             else Passed);
          confidence =
            (if av_confidence redValidation = Low \<or> av_confidence blueValidation = Low then Low
             else if av_confidence redValidation = Medium \<or> av_confidence blueValidation = Medium
               then Medium
             else High);
          teams =
            map (teamValidationOf Red scoutedRedEntries scoutedRedRaw redValidation)
              (tba_teams tbaRed)
            @ map (teamValidationOf Blue scoutedBlueEntries scoutedBlueRaw blueValidation)
                (tba_teams tbaBlue)
      in \<lparr> mv_id = eventKey @ ''_'' @ key tbaMatch,
           mv_eventKey = eventKey,
           mv_matchKey = key tbaMatch,
           mv_matchNumber = matchNo,
           mv_compLevel = comp_level tbaMatch,
           mv_status = status,
           mv_confidence = confidence,
           mv_redAlliance = redValidation,
           mv_blueAlliance = blueValidation,
           mv_teams = teams,
           mv_totalDiscrepancies = length allDiscrepancies,
           mv_criticalDiscrepancies = criticalCount,
           mv_warningDiscrepancies = warningCount,
           mv_flaggedForReview = (status = Flagged \<or> status = Failed),
           mv_requiresReScout = (status = Failed) \<rparr>)"

section \<open>The 2025 game constants\<close>

record CoralPoints =
  L1 :: real
  L2 :: real
  L3 :: real
  L4 :: real

record AlgaePoints =
  NET :: real
  PROCESSOR :: real

record EndgamePoints =
  PARK :: real
  SHALLOW_CLIMB :: real
  DEEP_CLIMB :: real

definition AUTO_CORAL_POINTS :: CoralPoints where
  "AUTO_CORAL_POINTS = \<lparr> L1 = 3, L2 = 4, L3 = 6, L4 = 7 \<rparr>"

definition AUTO_ALGAE_POINTS :: AlgaePoints where
  "AUTO_ALGAE_POINTS = \<lparr> NET = 4, PROCESSOR = 6 \<rparr>"

definition AUTO_MOBILITY_POINTS :: real where
  "AUTO_MOBILITY_POINTS = 3"

definition TELEOP_CORAL_POINTS :: CoralPoints where
  "TELEOP_CORAL_POINTS = \<lparr> L1 = 2, L2 = 3, L3 = 4, L4 = 5 \<rparr>"

definition TELEOP_ALGAE_POINTS :: AlgaePoints where
  "TELEOP_ALGAE_POINTS = \<lparr> NET = 4, PROCESSOR = 6 \<rparr>"

definition ENDGAME_POINTS :: EndgamePoints where
  "ENDGAME_POINTS = \<lparr> PARK = 2, SHALLOW_CLIMB = 6, DEEP_CLIMB = 12 \<rparr>"

definition calculateAutoCoralPoints :: "real \<Rightarrow> real \<Rightarrow> real \<Rightarrow> real \<Rightarrow> real" where
  "calculateAutoCoralPoints l1 l2 l3 l4 =
     l1 * L1 AUTO_CORAL_POINTS + l2 * L2 AUTO_CORAL_POINTS + l3 * L3 AUTO_CORAL_POINTS
       + l4 * L4 AUTO_CORAL_POINTS"

definition calculateTeleopCoralPoints :: "real \<Rightarrow> real \<Rightarrow> real \<Rightarrow> real \<Rightarrow> real" where
  "calculateTeleopCoralPoints l1 l2 l3 l4 =
     l1 * L1 TELEOP_CORAL_POINTS + l2 * L2 TELEOP_CORAL_POINTS + l3 * L3 TELEOP_CORAL_POINTS
       + l4 * L4 TELEOP_CORAL_POINTS"

definition calculateAlgaePoints :: "real \<Rightarrow> real \<Rightarrow> bool \<Rightarrow> real" where
  "calculateAlgaePoints net processor isAuto =
     net * (if isAuto then NET AUTO_ALGAE_POINTS else NET TELEOP_ALGAE_POINTS)
       + processor * (if isAuto then PROCESSOR AUTO_ALGAE_POINTS
                      else PROCESSOR TELEOP_ALGAE_POINTS)"

definition calculateEndgamePoints :: "real \<Rightarrow> real \<Rightarrow> real \<Rightarrow> real" where
  "calculateEndgamePoints parks shallowClimbs deepClimbs =
     parks * PARK ENDGAME_POINTS + shallowClimbs * SHALLOW_CLIMB ENDGAME_POINTS
       + deepClimbs * DEEP_CLIMB ENDGAME_POINTS"

text \<open>The parameter object of \<^verbatim>\<open>calculateMatchPoints\<close>.\<close>

record MatchPointsParams =
  autoCoralL1 :: real
  autoCoralL2 :: real
  autoCoralL3 :: real
  autoCoralL4 :: real
  autoAlgaeNet :: real
  autoAlgaeProcessor :: real
  autoMobility :: real
  teleopCoralL1 :: real
  teleopCoralL2 :: real
  teleopCoralL3 :: real
  teleopCoralL4 :: real
  teleopAlgaeNet :: real
  teleopAlgaeProcessor :: real
  parks :: real
  shallowClimbs :: real
  deepClimbs :: real

definition calculateMatchPoints :: "MatchPointsParams \<Rightarrow> real" where
  "calculateMatchPoints params =
     (let autoCoralPoints =
            calculateAutoCoralPoints (autoCoralL1 params) (autoCoralL2 params)
              (autoCoralL3 params) (autoCoralL4 params);
          teleopCoralPoints =
            calculateTeleopCoralPoints (teleopCoralL1 params) (teleopCoralL2 params)
              (teleopCoralL3 params) (teleopCoralL4 params);
          autoAlgaePoints =
            calculateAlgaePoints (autoAlgaeNet params) (autoAlgaeProcessor params) True;
          teleopAlgaePoints =
            calculateAlgaePoints (teleopAlgaeNet params) (teleopAlgaeProcessor params) False;
          mobilityPoints = autoMobility params * AUTO_MOBILITY_POINTS;
          endgamePoints =
            calculateEndgamePoints (parks params) (shallowClimbs params) (deepClimbs params)
      in autoCoralPoints + teleopCoralPoints + autoAlgaePoints + teleopAlgaePoints
           + mobilityPoints + endgamePoints)"

text \<open>The counts of a scouted aggregate, as the parameter object of \<^const>\<open>calculateMatchPoints\<close>.\<close>

definition matchPointsParamsOf :: "ScoutedAllianceData \<Rightarrow> MatchPointsParams" where
  "matchPointsParamsOf scoutedData =
     \<lparr> autoCoralL1 = sc_autoCoralL1 scoutedData,
       autoCoralL2 = sc_autoCoralL2 scoutedData,
       autoCoralL3 = sc_autoCoralL3 scoutedData,
       autoCoralL4 = sc_autoCoralL4 scoutedData,
       autoAlgaeNet = sc_autoAlgaeNet scoutedData,
       autoAlgaeProcessor = sc_autoAlgaeProcessor scoutedData,
       autoMobility = sc_autoMobility scoutedData,
       teleopCoralL1 = sc_teleopCoralL1 scoutedData,
       teleopCoralL2 = sc_teleopCoralL2 scoutedData,
       teleopCoralL3 = sc_teleopCoralL3 scoutedData,
       teleopCoralL4 = sc_teleopCoralL4 scoutedData,
       teleopAlgaeNet = sc_teleopAlgaeNet scoutedData,
       teleopAlgaeProcessor = sc_teleopAlgaeProcessor scoutedData,
       parks = sc_parks scoutedData,
       shallowClimbs = sc_shallowClimbs scoutedData,
       deepClimbs = sc_deepClimbs scoutedData \<rparr>"

section \<open>Merging incoming records: the lookups of the canonical store\<close>

text \<open>
  The \<^verbatim>\<open>data\<close> object of an incoming \<^verbatim>\<open>ScoutingDataWithId\<close>, with the fields the
  lookups read; a field that is absent is \<^const>\<open>None\<close>. Field values are strings here
  (the source passes them through \<^verbatim>\<open>String(...)\<close>).
\<close>

record IncomingData =
  in_matchNumber :: "string option"
  in_selectTeam :: "string option"
  in_teamNumber :: "string option"
  in_alliance :: "string option"
  in_eventName :: "string option"
  in_isCorrected :: "bool option"

text \<open>\<^verbatim>\<open>String(x || '')\<close>: the empty string for an absent (or empty) field.\<close>

definition orEmpty :: "string option \<Rightarrow> string" where
  "orEmpty x = (case x of None \<Rightarrow> [] | Some s \<Rightarrow> s)"

text \<open>\<^verbatim>\<open>String(a || b || '')\<close>: the first of the two that is present and not empty.\<close>

definition firstOrEmpty :: "string option \<Rightarrow> string option \<Rightarrow> string" where
  "firstOrEmpty a b = (if orEmpty a \<noteq> [] then orEmpty a else orEmpty b)"

text \<open>
  The string methods used on the alliance field, on ASCII: \<^verbatim>\<open>toLowerCase()\<close>,
  \<^verbatim>\<open>replace(pattern, replacement)\<close> with a string pattern (the first occurrence only)
  and \<^verbatim>\<open>trim()\<close>.
\<close>

definition toLowerChar :: "char \<Rightarrow> char" where
  "toLowerChar c =
     (let n = (of_char c :: nat) in if 65 \<le> n \<and> n \<le> 90 then char_of (n + 32) else c)"

definition toLowerCase :: "string \<Rightarrow> string" where
  "toLowerCase s = map toLowerChar s"

fun replaceFirst :: "string \<Rightarrow> string \<Rightarrow> string \<Rightarrow> string" where
  "replaceFirst pat rep [] = (if pat = [] then rep else [])"
| "replaceFirst pat rep (c # cs) =
     (if take (length pat) (c # cs) = pat then rep @ drop (length pat) (c # cs)
      else c # replaceFirst pat rep cs)"

definition isSpaceChar :: "char \<Rightarrow> bool" where
  "isSpaceChar c = (let n = (of_char c :: nat) in n = 32 \<or> (9 \<le> n \<and> n \<le> 13))"

definition trim :: "string \<Rightarrow> string" where
  "trim s = rev (dropWhile isSpaceChar (rev (dropWhile isSpaceChar s)))"

text \<open>\<^verbatim>\<open>.toLowerCase().replace('alliance', '').trim()\<close>.\<close>

definition normalizeAlliance :: "string \<Rightarrow> string" where
  "normalizeAlliance s = trim (replaceFirst ''alliance'' [] (toLowerCase s))"

text \<open>
  The lookup of the auto-replace loop of \<^verbatim>\<open>handleScoutingDataUpload\<close> (the same code
  stands in \<^verbatim>\<open>processScoutingImport\<close> and in the scanner components): the first stored
  record equal to the incoming one on match, team, normalised alliance and event.
  The store contents \<^verbatim>\<open>db.scoutingData.toArray()\<close> are the argument \<open>entries\<close>;
  \<^verbatim>\<open>e.alliance?.\<close> on a record without alliance gives \<^verbatim>\<open>undefined\<close>, equal to no string.
\<close>

definition autoReplaceLookup :: "ScoutingEntryDB list \<Rightarrow> IncomingData \<Rightarrow> ScoutingEntryDB option" where
  "autoReplaceLookup entries incomingData =
     (let matchNo = orEmpty (in_matchNumber incomingData);
          teamNo = firstOrEmpty (in_selectTeam incomingData) (in_teamNumber incomingData);
          alli = normalizeAlliance (orEmpty (in_alliance incomingData));
          event = orEmpty (in_eventName incomingData)
      in find (\<lambda>e. db_matchNumber e = matchNo
                   \<and> db_teamNumber e = teamNo
                   \<and> (case db_alliance e of None \<Rightarrow> False
                       | Some a \<Rightarrow> normalizeAlliance a = alli)
                   \<and> db_eventName e = event) entries)"

text \<open>
  The store after the delete step of the auto-replace loop:
  \<^verbatim>\<open>if (existing) await db.scoutingData.delete(existing.id)\<close> removes the record stored
  under the primary key of the record found. The save that follows
  (\<^verbatim>\<open>saveScoutingEntry\<close> of \<^verbatim>\<open>dexieDB\<close>) is not modelled: its text is not available.
\<close>

definition autoReplaceDelete :: "ScoutingEntryDB list \<Rightarrow> IncomingData \<Rightarrow> ScoutingEntryDB list" where
  "autoReplaceDelete entries incomingData =
     (case autoReplaceLookup entries incomingData of
        None \<Rightarrow> entries
      | Some existing \<Rightarrow> filter (\<lambda>e. db_id e \<noteq> db_id existing) entries)"

text \<open>
  \<^verbatim>\<open>findExistingEntry\<close>: event, match and team when the incoming record names an event,
  match and team only when it does not.
\<close>

definition findExistingEntry :: "ScoutingEntryDB list \<Rightarrow> IncomingData \<Rightarrow> ScoutingEntryDB option" where
  "findExistingEntry entries incomingData =
     (let matchNo = orEmpty (in_matchNumber incomingData);
          teamNo = firstOrEmpty (in_selectTeam incomingData) (in_teamNumber incomingData);
          event = orEmpty (in_eventName incomingData)
      in if event \<noteq> [] then
           find (\<lambda>e. db_matchNumber e = matchNo \<and> db_teamNumber e = teamNo
                      \<and> db_eventName e = event) entries
         else
           find (\<lambda>e. db_matchNumber e = matchNo \<and> db_teamNumber e = teamNo) entries)"

section \<open>Conflict detection\<close>

datatype MergeClass = AutoImport | AutoReplace | NeedsReview

datatype RecordState = Uncorrected | Corrected

text \<open>
  Modelled from the spec: the decision matrix of the conflict detector
  (\<^verbatim>\<open>detectConflicts\<close> of \<^verbatim>\<open>scoutingDataUtils\<close>, whose text is not available), row by
  row: existing state (none when no record stands at the key), incoming state,
  classification.
\<close>

fun decisionMatrix :: "RecordState option \<Rightarrow> RecordState \<Rightarrow> MergeClass" where
  "decisionMatrix None incoming = AutoImport"
| "decisionMatrix (Some Uncorrected) Uncorrected = AutoReplace"
| "decisionMatrix (Some Uncorrected) Corrected = AutoReplace"
| "decisionMatrix (Some Corrected) Uncorrected = NeedsReview"
| "decisionMatrix (Some Corrected) Corrected = NeedsReview"

text \<open>
  Modelled from the spec: the state of a record, corrected when its \<^verbatim>\<open>isCorrected\<close>
  flag is set; how the missing \<^verbatim>\<open>detectConflicts\<close> reads the flag is not available.
\<close>

definition stateOfFlag :: "bool option \<Rightarrow> RecordState" where
  "stateOfFlag flag = (if flag = Some True then Corrected else Uncorrected)"

text \<open>
  Modelled from the spec: the canonical record at the key of an incoming record, the
  key being (event, match, team) without the alliance; part of the missing
  \<^verbatim>\<open>detectConflicts\<close>.
\<close>

definition canonicalAt :: "ScoutingEntryDB list \<Rightarrow> IncomingData \<Rightarrow> ScoutingEntryDB option" where
  "canonicalAt store incomingData =
     find (\<lambda>e. db_eventName e = orEmpty (in_eventName incomingData)
              \<and> db_matchNumber e = orEmpty (in_matchNumber incomingData)
              \<and> db_teamNumber e =
                  firstOrEmpty (in_selectTeam incomingData) (in_teamNumber incomingData)) store"

text \<open>
  Modelled from the spec: the classification of one incoming record against the current
  store, the per-record step of the missing \<^verbatim>\<open>detectConflicts\<close>.
\<close>

definition classifyIncoming :: "ScoutingEntryDB list \<Rightarrow> IncomingData \<Rightarrow> MergeClass" where
  "classifyIncoming store incomingData =
     decisionMatrix (map_option (\<lambda>e. stateOfFlag (db_isCorrected e)) (canonicalAt store incomingData))
       (stateOfFlag (in_isCorrected incomingData))"

record ConflictResult =
  autoImport :: "IncomingData list"
  autoReplace :: "IncomingData list"
  needsReview :: "IncomingData list"

text \<open>
  Modelled from the spec: the missing \<^verbatim>\<open>detectConflicts\<close> on a batch, each incoming
  record classified against the store as read once.
\<close>

definition detectConflicts :: "ScoutingEntryDB list \<Rightarrow> IncomingData list \<Rightarrow> ConflictResult" where
  "detectConflicts store incoming =
     \<lparr> autoImport = filter (\<lambda>d. classifyIncoming store d = AutoImport) incoming,
       autoReplace = filter (\<lambda>d. classifyIncoming store d = AutoReplace) incoming,
       needsReview = filter (\<lambda>d. classifyIncoming store d = NeedsReview) incoming \<rparr>"

section \<open>Example inputs\<close>

text \<open>
  A threshold set used in the examples: the absolute bars 1 / 2 / 5 (the warning and
  critical bars of the algae scenario) and percentage bars 10 / 25 / 50.
\<close>

definition exampleThresholds :: Thresholds where
  "exampleThresholds =
     \<lparr> critical = 50, warning = 25, minor = 10,
       criticalAbsolute = 5, warningAbsolute = 2, minorAbsolute = 1 \<rparr>"

definition exampleConfig :: ValidationConfig where
  "exampleConfig =
     \<lparr> thresholds = exampleThresholds, categoryThresholds = None,
       checkAutoScoring = True, checkTeleopScoring = True, checkEndgame = True,
       autoFlagThreshold = 2, requireReScoutThreshold = 3 \<rparr>"

text \<open>An entry with every counter at 0 and every flag off, for the examples.\<close>

definition blankEntry :: "string \<Rightarrow> ScoutingEntry" where
  "blankEntry team =
     \<lparr> matchNumber = ''10'', alliance = ''red'', scoutName = ''Alice'', selectTeam = team,
       eventName = ''2025test'',
       autoCoralPlaceL1Count = 0, autoCoralPlaceL2Count = 0, autoCoralPlaceL3Count = 0,
       autoCoralPlaceL4Count = 0,
       teleopCoralPlaceL1Count = 0, teleopCoralPlaceL2Count = 0, teleopCoralPlaceL3Count = 0,
       teleopCoralPlaceL4Count = 0,
       autoAlgaePlaceNetShot = 0, autoAlgaePlaceProcessor = 0,
       teleopAlgaePlaceNetShot = 0, teleopAlgaePlaceProcessor = 0,
       autoPassedStartLine = False, deepClimbAttempted = False, shallowClimbAttempted = False,
       parkAttempted = False, climbFailed = False, brokeDown = False, playedDefense = False \<rparr>"

text \<open>
  A match without a published breakdown, one red entry with 10 auto and 10 teleop coral
  at level 4, and no blue entries.
\<close>

definition exampleMatch :: TBAMatchData where
  "exampleMatch =
     \<lparr> key = ''2025test_qm10'', comp_level = ''qm'',
       alliances = (\<lambda>c. case c of
          Red \<Rightarrow> \<lparr> team_keys = [''frc100'', ''frc200'', ''frc300''], score = 0 \<rparr>
        | Blue \<Rightarrow> \<lparr> team_keys = [''frc400'', ''frc500'', ''frc600''], score = 0 \<rparr>),
       score_breakdown = None \<rparr>"

definition exampleRedEntries :: "ScoutingEntry list" where
  "exampleRedEntries =
     [(blankEntry ''100'')\<lparr> autoCoralPlaceL4Count := 10, teleopCoralPlaceL4Count := 10 \<rparr>]"

definition exampleResult :: MatchValidationResult where
  "exampleResult =
     validateMatch (drop 3) ''2025test'' ''10'' exampleRedEntries [] exampleMatch exampleConfig
       None None"

text \<open>
  The clean scenario: red teams 100, 200 and 300 each scouted with one auto coral at
  level 4, and an official breakdown with 3 auto coral in the top row (the cumulative
  teleop top row is then 3 as well).
\<close>

definition cleanBreakdown :: TBABreakdown where
  "cleanBreakdown =
     \<lparr> autoLineRobot1 = ''No'', autoLineRobot2 = ''No'', autoLineRobot3 = ''No'',
       endGameRobot1 = ''None'', endGameRobot2 = ''None'', endGameRobot3 = ''None'',
       autoPoints = 21, teleopPoints = 0, foulPoints = 0,
       autoReef = \<lparr> trough = 0, tba_botRowCount = 0, tba_midRowCount = 0, tba_topRowCount = 3 \<rparr>,
       teleopReef = \<lparr> trough = 0, tba_botRowCount = 0, tba_midRowCount = 0, tba_topRowCount = 3 \<rparr>,
       autoCoralCount = 3, autoCoralPoints = 21, teleopCoralCount = 0, teleopCoralPoints = 0,
       netAlgaeCount = 0, wallAlgaeCount = 0, algaePoints = 0,
       autoMobilityPoints = 0, endGameBargePoints = 0,
       autoBonusAchieved = False, coralBonusAchieved = False, bargeBonusAchieved = False,
       foulCount = 0, techFoulCount = 0 \<rparr>"

definition cleanMatch :: TBAMatchData where
  "cleanMatch =
     exampleMatch\<lparr> score_breakdown := Some (\<lambda>c. if c = Red then Some cleanBreakdown else None) \<rparr>"

definition cleanRedEntries :: "ScoutingEntry list" where
  "cleanRedEntries =
     [(blankEntry ''100'')\<lparr> autoCoralPlaceL4Count := 1 \<rparr>,
      (blankEntry ''200'')\<lparr> autoCoralPlaceL4Count := 1 \<rparr>,
      (blankEntry ''300'')\<lparr> autoCoralPlaceL4Count := 1 \<rparr>]"

text \<open>A stored record on the red alliance and an incoming record for the same event, match
  and team on the blue alliance.\<close>

definition exampleStored :: ScoutingEntryDB where
  "exampleStored =
     \<lparr> db_id = ''2025test::10::100'', db_matchNumber = ''10'', db_teamNumber = ''100'',
       db_alliance = Some ''red'', db_eventName = ''2025test'',
       db_isCorrected = None, db_correctionCount = None, db_lastCorrectedAt = None,
       db_lastCorrectedBy = None, db_correctionNotes = None, db_originalScoutName = None \<rparr>"

definition exampleIncoming :: IncomingData where
  "exampleIncoming =
     \<lparr> in_matchNumber = Some ''10'', in_selectTeam = Some ''100'', in_teamNumber = None,
       in_alliance = Some ''blue'', in_eventName = Some ''2025test'', in_isCorrected = None \<rparr>"

section \<open>Properties of the severity classification\<close>

text \<open>
  The gate \<^verbatim>\<open>difference < warningAbsolute\<close> is reached only after the check
  \<^verbatim>\<open>difference >= warningAbsolute\<close> has failed, so it always returns: the percentage
  checks behind it are never reached and the result is the one of the absolute checks.
\<close>

lemma calculateSeverity_absolute:
  "calculateSeverity diff pct config cat =
     absoluteSeverity diff (selectThresholds config cat)"
  by (simp add: calculateSeverity_def absoluteSeverity_def Let_def)

lemma reportedSeverity_createDiscrepancy:
  "reportedSeverity (createDiscrepancy cat fld scouted tba config) =
     absoluteSeverity \<bar>scouted - tba\<bar> (selectThresholds config (Some cat))"
  by (simp add: reportedSeverity_def createDiscrepancy_def Let_def calculateSeverity_absolute)

lemma absoluteSeverity_mono:
  "d1 \<le> d2 \<Longrightarrow>
     severityOrdinal (absoluteSeverity d1 th) \<le> severityOrdinal (absoluteSeverity d2 th)"
  by (simp add: absoluteSeverity_def)

lemma selectThresholds_exampleConfig [simp]:
  "selectThresholds exampleConfig cat = exampleThresholds"
  by (simp add: selectThresholds_def exampleConfig_def split: option.splits)

text \<open>
  Claim C1. The percentage thresholds are said to escalate the severity once the
  difference has cleared the warning-absolute bar. In the code they never do: for every
  input the result is the one of the absolute checks, whatever the percentage. Scouted 5
  against official 2 gives difference 3 and percentage 60, above the critical percentage
  bar 50 and with the difference at or above the warning-absolute bar 2, and the result
  is still warning.
\<close>

theorem C1_percentage_never_escalates:
  "calculateSeverity diff pct config cat = absoluteSeverity diff (selectThresholds config cat)
   \<and> \<bar>5 - 2\<bar> \<ge> warningAbsolute (selectThresholds exampleConfig (Some Algae))
   \<and> percentDiffOf 5 2 = 60
   \<and> percentDiffOf 5 2 \<ge> critical (selectThresholds exampleConfig (Some Algae))
   \<and> calculateSeverity \<bar>5 - 2\<bar> (percentDiffOf 5 2) exampleConfig (Some Algae) = SevWarning
   \<and> reportedSeverity (createDiscrepancy Algae ''Total Algae Net'' 5 2 exampleConfig) = SevWarning"
  by (simp add: calculateSeverity_absolute reportedSeverity_createDiscrepancy
      absoluteSeverity_def exampleThresholds_def percentDiffOf_def)

text \<open>
  Claim C2, as stated: a difference below the warning-absolute bar always gives none.
  It fails where the difference reaches the minor-absolute bar: scouted 0 against
  official 1 under the bars 1 / 2 / 5 is below the warning bar and classified minor.
\<close>

theorem C2_below_warning_not_always_none:
  "\<bar>0 - 1\<bar> < warningAbsolute (selectThresholds exampleConfig (Some AutoCoral))
   \<and> calculateSeverity \<bar>0 - 1\<bar> (percentDiffOf 0 1) exampleConfig (Some AutoCoral) \<noteq> SevNone"
  by (simp add: calculateSeverity_absolute absoluteSeverity_def exampleThresholds_def)

text \<open>
  Claim C2, amended: with the difference below the warning-absolute bar, the percentage
  plays no part and the result is never warning: it is critical when the difference
  reaches the critical-absolute bar, otherwise minor when it reaches the minor-absolute
  bar, otherwise none. So below all three absolute bars the result is none, however
  large the percentage.
\<close>

theorem C2_below_warning_absolute_only:
  assumes "\<bar>scouted - official\<bar> < warningAbsolute (selectThresholds config cat)"
  shows "calculateSeverity \<bar>scouted - official\<bar> pct config cat =
           (if \<bar>scouted - official\<bar> \<ge> criticalAbsolute (selectThresholds config cat)
              then SevCritical
            else if \<bar>scouted - official\<bar> \<ge> minorAbsolute (selectThresholds config cat)
              then SevMinor
            else SevNone)"
  using assms by (simp add: calculateSeverity_def Let_def)

theorem C2_below_warning_absolute_only_witness:
  "\<bar>0 - (1 / 2)\<bar> < warningAbsolute (selectThresholds exampleConfig (Some AutoCoral))
   \<and> calculateSeverity \<bar>0 - (1 / 2)\<bar> 100 exampleConfig (Some AutoCoral) = SevNone
   \<and> \<bar>0 - 1\<bar> < warningAbsolute (selectThresholds exampleConfig (Some AutoCoral))
   \<and> calculateSeverity \<bar>0 - 1\<bar> 100 exampleConfig (Some AutoCoral) = SevMinor"
  using C2_below_warning_absolute_only [of 0 "1 / 2" exampleConfig "Some AutoCoral" 100]
    C2_below_warning_absolute_only [of 0 1 exampleConfig "Some AutoCoral" 100]
  by (simp add: exampleThresholds_def)

text \<open>
  Claim C8. For a fixed official value and a fixed threshold set, a larger absolute
  difference never gives a lower severity, in the order none < minor < warning <
  critical; whatever the two percentages are, and so in particular for the severities
  that \<^const>\<open>createDiscrepancy\<close> reports.
\<close>

theorem C8_severity_monotone:
  assumes "\<bar>s1 - official\<bar> \<le> \<bar>s2 - official\<bar>"
  shows "severityOrdinal (calculateSeverity \<bar>s1 - official\<bar> p1 config cat)
           \<le> severityOrdinal (calculateSeverity \<bar>s2 - official\<bar> p2 config cat)
         \<and> severityOrdinal (reportedSeverity (createDiscrepancy c fld s1 official config))
           \<le> severityOrdinal (reportedSeverity (createDiscrepancy c fld s2 official config))"
  using assms
  by (simp add: calculateSeverity_absolute reportedSeverity_createDiscrepancy
      absoluteSeverity_mono)

theorem C8_severity_monotone_witness:
  "\<bar>3 - 2\<bar> \<le> \<bar>(5::real) - 2\<bar>
   \<and> calculateSeverity \<bar>3 - 2\<bar> (percentDiffOf 3 2) exampleConfig (Some Algae) = SevMinor
   \<and> calculateSeverity \<bar>5 - 2\<bar> (percentDiffOf 5 2) exampleConfig (Some Algae) = SevWarning
   \<and> severityOrdinal (calculateSeverity \<bar>3 - 2\<bar> (percentDiffOf 3 2) exampleConfig (Some Algae))
       \<le> severityOrdinal (calculateSeverity \<bar>5 - 2\<bar> (percentDiffOf 5 2) exampleConfig (Some Algae))"
  using C8_severity_monotone [of 3 2 5 "percentDiffOf 3 2" exampleConfig "Some Algae"
      "percentDiffOf 5 2" Algae "''Total Algae Net''"]
  by (simp add: calculateSeverity_absolute absoluteSeverity_def exampleThresholds_def)

section \<open>Properties of the aggregates\<close>

lemma foldl_count:
  "foldl (\<lambda>sum e. sum + (if p e then 1 else (0::real))) a es = a + real (length (filter p es))"
  by (induction es arbitrary: a) auto

lemma reduceSum_count:
  "reduceSum (\<lambda>e. if p e then 1 else 0) es = filterLength p es"
  by (simp add: reduceSum_def filterLength_def foldl_count)

lemma aggregate_endgame:
  "sc_deepClimbs (aggregateScoutedAllianceData es color matchNo event expected) =
     filterLength (\<lambda>e. deepClimbAttempted e \<and> \<not> climbFailed e) es"
  "sc_shallowClimbs (aggregateScoutedAllianceData es color matchNo event expected) =
     filterLength (\<lambda>e. shallowClimbAttempted e \<and> \<not> climbFailed e) es"
  "sc_parks (aggregateScoutedAllianceData es color matchNo event expected) =
     filterLength parkAttempted es"
  "sc_climbFails (aggregateScoutedAllianceData es color matchNo event expected) =
     filterLength climbFailed es"
  by (simp_all add: aggregateScoutedAllianceData_def Let_def reduceSum_count)

lemma stats_endgame:
  "st_deepClimbs (calculateAllianceStats es) = filterLength deepClimbAttempted es"
  "st_shallowClimbs (calculateAllianceStats es) = filterLength shallowClimbAttempted es"
  "st_parks (calculateAllianceStats es) = filterLength parkAttempted es"
  "st_climbFailures (calculateAllianceStats es) = filterLength climbFailed es"
  by (simp_all add: calculateAllianceStats_def createEmptyAllianceStats_def filterLength_def)

text \<open>
  Claim C9. In the comparison-path aggregate, deepClimbs and shallowClimbs count the
  entries whose attempt flag is set and whose climbFailed flag is not; climbFails counts
  the entries with climbFailed, parks those with parkAttempted (failed or not). The
  display-path aggregate counts every entry with the attempt flag, whatever climbFailed
  is.
\<close>

theorem C9_endgame_counts:
  "sc_deepClimbs (aggregateScoutedAllianceData es color matchNo event expected) =
     real (length (filter (\<lambda>e. deepClimbAttempted e \<and> \<not> climbFailed e) es))
   \<and> sc_shallowClimbs (aggregateScoutedAllianceData es color matchNo event expected) =
     real (length (filter (\<lambda>e. shallowClimbAttempted e \<and> \<not> climbFailed e) es))
   \<and> sc_climbFails (aggregateScoutedAllianceData es color matchNo event expected) =
     real (length (filter climbFailed es))
   \<and> sc_parks (aggregateScoutedAllianceData es color matchNo event expected) =
     real (length (filter parkAttempted es))
   \<and> st_deepClimbs (calculateAllianceStats es) = real (length (filter deepClimbAttempted es))
   \<and> st_shallowClimbs (calculateAllianceStats es) =
     real (length (filter shallowClimbAttempted es))"
  by (simp add: aggregate_endgame stats_endgame filterLength_def)

text \<open>
  The two paths apart on one entry: a deep climb that was attempted and failed, by a
  robot that also parked.
\<close>

lemma failed_climb_example:
  "sc_deepClimbs (aggregateScoutedAllianceData
      [(blankEntry ''100'')\<lparr> deepClimbAttempted := True, parkAttempted := True,
                              climbFailed := True \<rparr>] Red ''10'' ''2025test'' [''100'']) = 0
   \<and> sc_climbFails (aggregateScoutedAllianceData
      [(blankEntry ''100'')\<lparr> deepClimbAttempted := True, parkAttempted := True,
                              climbFailed := True \<rparr>] Red ''10'' ''2025test'' [''100'']) = 1
   \<and> sc_parks (aggregateScoutedAllianceData
      [(blankEntry ''100'')\<lparr> deepClimbAttempted := True, parkAttempted := True,
                              climbFailed := True \<rparr>] Red ''10'' ''2025test'' [''100'']) = 1
   \<and> st_deepClimbs (calculateAllianceStats
      [(blankEntry ''100'')\<lparr> deepClimbAttempted := True, parkAttempted := True,
                              climbFailed := True \<rparr>]) = 1"
  by (simp add: aggregate_endgame stats_endgame filterLength_def blankEntry_def)

section \<open>Properties of the alliance comparison\<close>

text \<open>
  Claim C5. The teleop-only official figure of each level is the cumulative teleop count
  minus the auto count, clamped at 0: never negative, 0 when the cumulative count is
  below the auto count, 3 for auto 2 and cumulative 5. The derived total is the sum of
  the four clamped figures, and these are the official values the teleop coral block
  compares the scouted counts against.
\<close>

theorem C5_teleop_cumulative_subtraction:
  "tbaActualTeleopL1 t = max 0 (tba_teleopCoralL1 t - tba_autoCoralL1 t)
   \<and> tbaActualTeleopL2 t = max 0 (tba_teleopCoralL2 t - tba_autoCoralL2 t)
   \<and> tbaActualTeleopL3 t = max 0 (tba_teleopCoralL3 t - tba_autoCoralL3 t)
   \<and> tbaActualTeleopL4 t = max 0 (tba_teleopCoralL4 t - tba_autoCoralL4 t)
   \<and> 0 \<le> tbaActualTeleopL1 t \<and> 0 \<le> tbaActualTeleopL2 t
   \<and> 0 \<le> tbaActualTeleopL3 t \<and> 0 \<le> tbaActualTeleopL4 t
   \<and> tbaActualTeleopL1 t =
       (if tba_teleopCoralL1 t < tba_autoCoralL1 t then 0
        else tba_teleopCoralL1 t - tba_autoCoralL1 t)
   \<and> tbaActualTeleopL2 t =
       (if tba_teleopCoralL2 t < tba_autoCoralL2 t then 0
        else tba_teleopCoralL2 t - tba_autoCoralL2 t)
   \<and> tbaActualTeleopL3 t =
       (if tba_teleopCoralL3 t < tba_autoCoralL3 t then 0
        else tba_teleopCoralL3 t - tba_autoCoralL3 t)
   \<and> tbaActualTeleopL4 t =
       (if tba_teleopCoralL4 t < tba_autoCoralL4 t then 0
        else tba_teleopCoralL4 t - tba_autoCoralL4 t)
   \<and> tbaActualTeleopL3 (t\<lparr> tba_autoCoralL3 := 2, tba_teleopCoralL3 := 5 \<rparr>) = 3
   \<and> tbaActualTeleopL3 (t\<lparr> tba_autoCoralL3 := 5, tba_teleopCoralL3 := 2 \<rparr>) = 0
   \<and> tbaActualTeleopTotal t =
       max 0 (tba_teleopCoralL1 t - tba_autoCoralL1 t)
       + max 0 (tba_teleopCoralL2 t - tba_autoCoralL2 t)
       + max 0 (tba_teleopCoralL3 t - tba_autoCoralL3 t)
       + max 0 (tba_teleopCoralL4 t - tba_autoCoralL4 t)
   \<and> teleopCoralComparison s t config =
       (if checkTeleopScoring config then
          pushPresent
            [createDiscrepancy TeleopCoral ''Teleop Coral L1'' (sc_teleopCoralL1 s)
               (max 0 (tba_teleopCoralL1 t - tba_autoCoralL1 t)) config,
             createDiscrepancy TeleopCoral ''Teleop Coral L2'' (sc_teleopCoralL2 s)
               (max 0 (tba_teleopCoralL2 t - tba_autoCoralL2 t)) config,
             createDiscrepancy TeleopCoral ''Teleop Coral L3'' (sc_teleopCoralL3 s)
               (max 0 (tba_teleopCoralL3 t - tba_autoCoralL3 t)) config,
             createDiscrepancy TeleopCoral ''Teleop Coral L4'' (sc_teleopCoralL4 s)
               (max 0 (tba_teleopCoralL4 t - tba_autoCoralL4 t)) config,
             createDiscrepancy TeleopCoral ''Teleop Coral Total'' (sc_teleopCoralTotal s)
               (max 0 (tba_teleopCoralL1 t - tba_autoCoralL1 t)
                + max 0 (tba_teleopCoralL2 t - tba_autoCoralL2 t)
                + max 0 (tba_teleopCoralL3 t - tba_autoCoralL3 t)
                + max 0 (tba_teleopCoralL4 t - tba_autoCoralL4 t)) config]
        else [])"
  by (simp add: tbaActualTeleopL1_def tbaActualTeleopL2_def tbaActualTeleopL3_def
      tbaActualTeleopL4_def tbaActualTeleopTotal_def teleopCoralComparison_def max_def)

text \<open>
  Claim C6. The alliance status is decided by the counts of critical, warning and minor
  discrepancies of the run: failed when the critical count reaches autoFlagThreshold;
  otherwise flagged on any critical; otherwise flagged on more than 2 warnings;
  otherwise flagged on any warning or more than 3 minors; otherwise passed.
\<close>

theorem C6_alliance_status:
  "av_status (compareAllianceData scoutedData tbaData config) =
     (let ds = av_discrepancies (compareAllianceData scoutedData tbaData config);
          criticalCount = countSeverity SevCritical ds;
          warningCount = countSeverity SevWarning ds;
          minorCount = countSeverity SevMinor ds
      in if real criticalCount \<ge> autoFlagThreshold config then Failed
         else if criticalCount > 0 then Flagged
         else if warningCount > 2 then Flagged
         else if warningCount > 0 \<or> minorCount > 3 then Flagged
         else Passed)"
  by (simp add: compareAllianceData_def Let_def)

text \<open>
  Claim C10. The estimated scouted score that the comparison computes with inline point
  values equals \<^const>\<open>calculateMatchPoints\<close> of the game-constants module on the same
  counts.
\<close>

theorem C10_estimated_score_is_calculateMatchPoints:
  "av_totalScoutedPoints (compareAllianceData scoutedData tbaData config) =
     calculateMatchPoints (matchPointsParamsOf scoutedData)
   \<and> av_totalScoutedPoints (compareAllianceData scoutedData tbaData config) =
     (sc_autoCoralL1 scoutedData * 3 + sc_autoCoralL2 scoutedData * 4
        + sc_autoCoralL3 scoutedData * 6 + sc_autoCoralL4 scoutedData * 7)
     + (sc_autoAlgaeNet scoutedData * 4 + sc_autoAlgaeProcessor scoutedData * 6)
     + sc_autoMobility scoutedData * 3
     + (sc_teleopCoralL1 scoutedData * 2 + sc_teleopCoralL2 scoutedData * 3
        + sc_teleopCoralL3 scoutedData * 4 + sc_teleopCoralL4 scoutedData * 5)
     + (sc_teleopAlgaeNet scoutedData * 4 + sc_teleopAlgaeProcessor scoutedData * 6)
     + (sc_parks scoutedData * 2 + sc_shallowClimbs scoutedData * 6
        + sc_deepClimbs scoutedData * 12)"
  by (simp add: compareAllianceData_def Let_def calculateMatchPoints_def matchPointsParamsOf_def
      calculateAutoCoralPoints_def calculateTeleopCoralPoints_def calculateAlgaePoints_def
      calculateEndgamePoints_def AUTO_CORAL_POINTS_def TELEOP_CORAL_POINTS_def
      AUTO_ALGAE_POINTS_def TELEOP_ALGAE_POINTS_def AUTO_MOBILITY_POINTS_def ENDGAME_POINTS_def)

section \<open>Properties of match validation\<close>

lemma countSeverity_append:
  "countSeverity s (xs @ ys) = countSeverity s xs + countSeverity s ys"
  by (simp add: countSeverity_def)

lemma countSeverity_map:
  "countSeverity s ds = length (filter (\<lambda>x. x = s) (map severity ds))"
  by (simp add: countSeverity_def filter_map comp_def)

lemma alliance_failed_iff:
  "av_status (compareAllianceData s t config) = Failed \<longleftrightarrow>
     real (countSeverity SevCritical (av_discrepancies (compareAllianceData s t config)))
       \<ge> autoFlagThreshold config"
  by (simp add: compareAllianceData_def Let_def)

lemma validateMatch_status:
  "mv_status (validateMatch ext ev mn reds blues tba config rr br) =
     (let r = validateMatch ext ev mn reds blues tba config rr br;
          criticalCount = countSeverity SevCritical (av_discrepancies (mv_redAlliance r))
                          + countSeverity SevCritical (av_discrepancies (mv_blueAlliance r));
          warningCount = countSeverity SevWarning (av_discrepancies (mv_redAlliance r))
                          + countSeverity SevWarning (av_discrepancies (mv_blueAlliance r));
          minorCount = countSeverity SevMinor (av_discrepancies (mv_redAlliance r))
                          + countSeverity SevMinor (av_discrepancies (mv_blueAlliance r))
      in if real criticalCount \<ge> requireReScoutThreshold config then Failed
         else if real criticalCount \<ge> autoFlagThreshold config then Flagged
         else if warningCount > 2 then Flagged
         else if warningCount > 0 \<or> minorCount > 6 then Flagged
         else Passed)"
  by (simp add: validateMatch_def Let_def countSeverity_append)

lemma validateMatch_alliances:
  "mv_redAlliance (validateMatch ext ev mn reds blues tba config rr br) =
     compareAllianceData
       (aggregateScoutedAllianceData reds Red mn ev
          (tba_teams (extractTBAAllianceData ext tba Red)))
       (extractTBAAllianceData ext tba Red) config"
  "mv_blueAlliance (validateMatch ext ev mn reds blues tba config rr br) =
     compareAllianceData
       (aggregateScoutedAllianceData blues Blue mn ev
          (tba_teams (extractTBAAllianceData ext tba Blue)))
       (extractTBAAllianceData ext tba Blue) config"
  by (simp_all add: validateMatch_def Let_def)

lemma validateMatch_flags:
  "mv_requiresReScout (validateMatch ext ev mn reds blues tba config rr br) =
     (mv_status (validateMatch ext ev mn reds blues tba config rr br) = Failed)"
  "mv_flaggedForReview (validateMatch ext ev mn reds blues tba config rr br) =
     (mv_status (validateMatch ext ev mn reds blues tba config rr br) = Flagged
      \<or> mv_status (validateMatch ext ev mn reds blues tba config rr br) = Failed)"
  "mv_criticalDiscrepancies (validateMatch ext ev mn reds blues tba config rr br) =
     countSeverity SevCritical
       (av_discrepancies (mv_redAlliance (validateMatch ext ev mn reds blues tba config rr br)))
     + countSeverity SevCritical
       (av_discrepancies (mv_blueAlliance (validateMatch ext ev mn reds blues tba config rr br)))"
  by (simp_all add: validateMatch_def Let_def countSeverity_append)

text \<open>
  Claim C7. The combined critical count of a match is the sum of the two alliances'
  critical counts. When it reaches requireReScoutThreshold the match status is failed;
  when either alliance status is failed the match status is not passed; requiresReScout
  holds exactly when the status is failed, flaggedForReview exactly when it is flagged
  or failed.
\<close>

theorem C7_match_status:
  "(let r = validateMatch ext ev mn reds blues tba config rr br;
        combinedCritical =
          countSeverity SevCritical (av_discrepancies (mv_redAlliance r))
          + countSeverity SevCritical (av_discrepancies (mv_blueAlliance r))
    in mv_criticalDiscrepancies r = combinedCritical
       \<and> (real combinedCritical \<ge> requireReScoutThreshold config \<longrightarrow> mv_status r = Failed)
       \<and> (av_status (mv_redAlliance r) = Failed \<or> av_status (mv_blueAlliance r) = Failed
            \<longrightarrow> mv_status r \<noteq> Passed)
       \<and> mv_requiresReScout r = (mv_status r = Failed)
       \<and> mv_flaggedForReview r = (mv_status r = Flagged \<or> mv_status r = Failed))"
proof -
  define r where "r = validateMatch ext ev mn reds blues tba config rr br"
  define cr where "cr = countSeverity SevCritical (av_discrepancies (mv_redAlliance r))"
  define cb where "cb = countSeverity SevCritical (av_discrepancies (mv_blueAlliance r))"
  have st: "real (cr + cb) \<ge> requireReScoutThreshold config \<Longrightarrow> mv_status r = Failed"
    unfolding r_def cr_def cb_def by (subst validateMatch_status) (simp add: Let_def)
  have np: "real (cr + cb) \<ge> autoFlagThreshold config \<Longrightarrow> mv_status r \<noteq> Passed"
    unfolding r_def cr_def cb_def by (subst validateMatch_status) (simp add: Let_def)
  have red: "av_status (mv_redAlliance r) = Failed \<Longrightarrow> real cr \<ge> autoFlagThreshold config"
    unfolding r_def cr_def by (simp add: validateMatch_alliances alliance_failed_iff)
  have blue: "av_status (mv_blueAlliance r) = Failed \<Longrightarrow> real cb \<ge> autoFlagThreshold config"
    unfolding r_def cb_def by (simp add: validateMatch_alliances alliance_failed_iff)
  have alli: "mv_status r \<noteq> Passed"
    if "av_status (mv_redAlliance r) = Failed \<or> av_status (mv_blueAlliance r) = Failed"
  proof -
    from that have "real cr \<ge> autoFlagThreshold config \<or> real cb \<ge> autoFlagThreshold config"
      using red blue by blast
    then have "real (cr + cb) \<ge> autoFlagThreshold config" by auto
    then show ?thesis by (rule np)
  qed
  have fl: "mv_requiresReScout r = (mv_status r = Failed)"
    "mv_flaggedForReview r = (mv_status r = Flagged \<or> mv_status r = Failed)"
    "mv_criticalDiscrepancies r = cr + cb"
    unfolding r_def cr_def cb_def by (rule validateMatch_flags)+
  show ?thesis
    unfolding Let_def r_def [symmetric] cr_def [symmetric] cb_def [symmetric]
    using st alli fl by blast
qed

lemmas comparison_defs =
  compareAllianceData_def allianceDiscrepancies_def autoCoralComparison_def
  teleopCoralComparison_def algaeComparison_def mobilityComparison_def endgameComparison_def
  createDiscrepancy_def absoluteSeverity_def selectThresholds_def
  tbaActualTeleopL1_def tbaActualTeleopL2_def tbaActualTeleopL3_def tbaActualTeleopL4_def
  tbaActualTeleopTotal_def extractTBAAllianceData_def aggregateScoutedAllianceData_def
  reduceSum_def filterLength_def

lemma exampleResult_red:
  "map severity (av_discrepancies (mv_redAlliance exampleResult)) =
     [SevCritical, SevCritical, SevCritical, SevCritical]"
  by (simp add: exampleResult_def validateMatch_alliances Let_def comparison_defs
      calculateSeverity_absolute exampleMatch_def exampleRedEntries_def blankEntry_def
      exampleThresholds_def exampleConfig_def)

lemma exampleResult_blue:
  "av_discrepancies (mv_blueAlliance exampleResult) = []"
  by (simp add: exampleResult_def validateMatch_alliances Let_def comparison_defs
      calculateSeverity_absolute exampleMatch_def exampleThresholds_def exampleConfig_def)

theorem C7_match_status_witness:
  "real (countSeverity SevCritical (av_discrepancies (mv_redAlliance exampleResult))
         + countSeverity SevCritical (av_discrepancies (mv_blueAlliance exampleResult)))
     \<ge> requireReScoutThreshold exampleConfig
   \<and> av_status (mv_redAlliance exampleResult) = Failed
   \<and> mv_criticalDiscrepancies exampleResult = 4
   \<and> mv_status exampleResult = Failed
   \<and> mv_status exampleResult \<noteq> Passed
   \<and> mv_requiresReScout exampleResult
   \<and> mv_flaggedForReview exampleResult"
proof -
  have cr: "countSeverity SevCritical (av_discrepancies (mv_redAlliance exampleResult)) = 4"
    by (simp add: countSeverity_map exampleResult_red)
  have cb: "countSeverity SevCritical (av_discrepancies (mv_blueAlliance exampleResult)) = 0"
    by (simp add: countSeverity_def exampleResult_blue)
  have red: "av_status (mv_redAlliance exampleResult) = Failed"
    using cr unfolding exampleResult_def validateMatch_alliances alliance_failed_iff
    by (simp add: exampleConfig_def)
  have thr: "requireReScoutThreshold exampleConfig = 3"
    by (simp add: exampleConfig_def)
  show ?thesis
    using C7_match_status [of "drop 3" "''2025test''" "''10''" exampleRedEntries "[]"
        exampleMatch exampleConfig None None] cr cb red thr
    unfolding exampleResult_def [symmetric] Let_def
    by simp
qed

text \<open>
  The clean scenario end to end: no discrepancy on the red side, status passed,
  confidence high, every red team with scouted data.
\<close>

lemma clean_match_example:
  "av_discrepancies (mv_redAlliance
      (validateMatch (drop 3) ''2025test'' ''10'' cleanRedEntries [] cleanMatch exampleConfig
         None None)) = []
   \<and> av_status (mv_redAlliance
      (validateMatch (drop 3) ''2025test'' ''10'' cleanRedEntries [] cleanMatch exampleConfig
         None None)) = Passed
   \<and> av_confidence (mv_redAlliance
      (validateMatch (drop 3) ''2025test'' ''10'' cleanRedEntries [] cleanMatch exampleConfig
         None None)) = High"
  by (simp add: validateMatch_alliances Let_def comparison_defs countSeverity_def
      calculateSeverity_absolute cleanMatch_def cleanBreakdown_def exampleMatch_def
      cleanRedEntries_def blankEntry_def exampleThresholds_def exampleConfig_def)

section \<open>Properties of the merge lookups\<close>

lemma find_map_option:
  "find P (map g xs) = map_option g (find (\<lambda>x. P (g x)) xs)"
  by (induction xs) auto

text \<open>
  \<^const>\<open>findExistingEntry\<close> never looks at the alliance, neither the incoming record's
  nor a stored record's.
\<close>

lemma findExistingEntry_ignores_incoming_alliance:
  "findExistingEntry entries (d\<lparr> in_alliance := a \<rparr>) = findExistingEntry entries d"
  by (simp add: findExistingEntry_def)

lemma findExistingEntry_ignores_stored_alliance:
  "findExistingEntry (map (\<lambda>e. e\<lparr> db_alliance := f e \<rparr>) entries) d =
     map_option (\<lambda>e. e\<lparr> db_alliance := f e \<rparr>) (findExistingEntry entries d)"
  by (simp add: findExistingEntry_def Let_def find_map_option)

lemma normalizeAlliance_red [simp]: "normalizeAlliance ''red'' = ''red''"
  by (simp add: normalizeAlliance_def toLowerCase_def toLowerChar_def trim_def isSpaceChar_def)

lemma normalizeAlliance_blue [simp]: "normalizeAlliance ''blue'' = ''blue''"
  by (simp add: normalizeAlliance_def toLowerCase_def toLowerChar_def trim_def isSpaceChar_def)

lemma normalizeAlliance_redAlliance: "normalizeAlliance ''Red Alliance'' = ''red''"
  by code_simp

text \<open>
  Claim C4. Alliance is said never to take part in identity matching, in the auto-replace
  lookup as in \<^const>\<open>findExistingEntry\<close>. The stored red record and the incoming blue
  record agree on event, match and team: \<^const>\<open>findExistingEntry\<close> finds the stored
  record, the auto-replace lookup finds nothing, and the delete step leaves the stored
  record in place; with the incoming alliance set to red the lookup finds the record and
  the delete step removes it.
\<close>

theorem C4_auto_replace_lookup_compares_alliance:
  "db_eventName exampleStored = orEmpty (in_eventName exampleIncoming)
   \<and> db_matchNumber exampleStored = orEmpty (in_matchNumber exampleIncoming)
   \<and> db_teamNumber exampleStored =
       firstOrEmpty (in_selectTeam exampleIncoming) (in_teamNumber exampleIncoming)
   \<and> findExistingEntry [exampleStored] exampleIncoming = Some exampleStored
   \<and> autoReplaceLookup [exampleStored] exampleIncoming = None
   \<and> autoReplaceDelete [exampleStored] exampleIncoming = [exampleStored]
   \<and> autoReplaceLookup [exampleStored] (exampleIncoming\<lparr> in_alliance := Some ''red'' \<rparr>)
       = Some exampleStored
   \<and> autoReplaceDelete [exampleStored] (exampleIncoming\<lparr> in_alliance := Some ''red'' \<rparr>) = []"
  by (simp add: findExistingEntry_def autoReplaceLookup_def autoReplaceDelete_def
      exampleStored_def exampleIncoming_def orEmpty_def firstOrEmpty_def Let_def)

section \<open>Properties of conflict detection\<close>

text \<open>A batch against an empty store: every record is auto-imported.\<close>

lemma detectConflicts_empty_store:
  "detectConflicts [] incoming =
     \<lparr> autoImport = incoming, autoReplace = [], needsReview = [] \<rparr>"
  by (simp add: detectConflicts_def classifyIncoming_def canonicalAt_def)

text \<open>
  Claim C3. For an incoming record and the canonical record at its (event, match, team)
  key: a corrected local record with an uncorrected incoming one is classified
  needs-review, not auto-replace; an uncorrected local record with a corrected incoming
  one is classified auto-replace; with no record at the key the incoming record is
  classified auto-import. In a batch the record lands in the list of its class only.
\<close>

theorem C3_decision_matrix:
  "(canonicalAt store d = None \<longrightarrow> classifyIncoming store d = AutoImport)
   \<and> (\<forall>loc. canonicalAt store d = Some loc \<and> db_isCorrected loc = Some True
              \<and> in_isCorrected d \<noteq> Some True
         \<longrightarrow> classifyIncoming store d = NeedsReview \<and> classifyIncoming store d \<noteq> AutoReplace)
   \<and> (\<forall>loc. canonicalAt store d = Some loc \<and> db_isCorrected loc \<noteq> Some True
              \<and> in_isCorrected d = Some True
         \<longrightarrow> classifyIncoming store d = AutoReplace)
   \<and> (d \<in> set incoming \<longrightarrow>
        (d \<in> set (autoImport (detectConflicts store incoming))
           \<longleftrightarrow> classifyIncoming store d = AutoImport)
        \<and> (d \<in> set (autoReplace (detectConflicts store incoming))
           \<longleftrightarrow> classifyIncoming store d = AutoReplace)
        \<and> (d \<in> set (needsReview (detectConflicts store incoming))
           \<longleftrightarrow> classifyIncoming store d = NeedsReview))"
  by (auto simp: classifyIncoming_def stateOfFlag_def detectConflicts_def)

theorem C3_decision_matrix_witness:
  "canonicalAt [] exampleIncoming = None
   \<and> classifyIncoming [] exampleIncoming = AutoImport
   \<and> canonicalAt [exampleStored\<lparr> db_isCorrected := Some True \<rparr>] exampleIncoming
       = Some (exampleStored\<lparr> db_isCorrected := Some True \<rparr>)
   \<and> in_isCorrected exampleIncoming \<noteq> Some True
   \<and> classifyIncoming [exampleStored\<lparr> db_isCorrected := Some True \<rparr>] exampleIncoming
       = NeedsReview
   \<and> canonicalAt [exampleStored] (exampleIncoming\<lparr> in_isCorrected := Some True \<rparr>)
       = Some exampleStored
   \<and> db_isCorrected exampleStored \<noteq> Some True
   \<and> classifyIncoming [exampleStored] (exampleIncoming\<lparr> in_isCorrected := Some True \<rparr>)
       = AutoReplace
   \<and> needsReview (detectConflicts [exampleStored\<lparr> db_isCorrected := Some True \<rparr>]
        [exampleIncoming]) = [exampleIncoming]"
proof -
  have k1: "canonicalAt [] exampleIncoming = None"
    by (simp add: canonicalAt_def)
  have k2: "canonicalAt [exampleStored\<lparr> db_isCorrected := Some True \<rparr>] exampleIncoming
      = Some (exampleStored\<lparr> db_isCorrected := Some True \<rparr>)"
    by (simp add: canonicalAt_def exampleStored_def exampleIncoming_def orEmpty_def
        firstOrEmpty_def)
  have k3: "canonicalAt [exampleStored] (exampleIncoming\<lparr> in_isCorrected := Some True \<rparr>)
      = Some exampleStored"
    by (simp add: canonicalAt_def exampleStored_def exampleIncoming_def orEmpty_def
        firstOrEmpty_def)
  have f1: "in_isCorrected exampleIncoming \<noteq> Some True"
    by (simp add: exampleIncoming_def)
  have f2: "db_isCorrected exampleStored \<noteq> Some True"
    by (simp add: exampleStored_def)
  show ?thesis
    using C3_decision_matrix [of "[]" exampleIncoming "[]"]
      C3_decision_matrix [of "[exampleStored\<lparr> db_isCorrected := Some True \<rparr>]"
        exampleIncoming "[exampleIncoming]"]
      C3_decision_matrix [of "[exampleStored]"
        "exampleIncoming\<lparr> in_isCorrected := Some True \<rparr>" "[]"]
      k1 k2 k3 f1 f2
    by (simp add: detectConflicts_def)
qed

end
